theory Spec2Isabelle
  imports Complex_Main
begin

section \<open>Numbers, vectors and matrices\<close>

text \<open>
  JavaScript numbers and GLSL floats are modelled as exact reals: rounding to float64,
  to float32 (Float32Array) and to mediump is not part of the model, and neither are NaN
  and the infinities. A 4x4 matrix is the list of its 16 entries in column-major order,
  as the Float32Array handed to \<open>uniformMatrix4fv(loc, false, m)\<close>.
\<close>

type_synonym mat4 = "real list"
type_synonym vec3 = "real \<times> real \<times> real"
type_synonym vec4 = "real \<times> real \<times> real \<times> real"

text \<open>app.js, lines 25-41.\<close>

definition mat4Translate :: "real \<Rightarrow> real \<Rightarrow> real \<Rightarrow> mat4" where
  "mat4Translate x y z =
     [1, 0, 0, 0,
      0, 1, 0, 0,
      0, 0, 1, 0,
      x, y, z, 1]"

definition mat4Scale :: "real \<Rightarrow> real \<Rightarrow> real \<Rightarrow> mat4" where
  "mat4Scale sx sy sz =
     [sx, 0, 0, 0,
      0, sy, 0, 0,
      0, 0, sz, 0,
      0, 0, 0, 1]"

text \<open>
  app.js, lines 43-55: the two nested loops, \<open>i\<close> outside and \<open>j\<close> inside, each writing
  \<open>out[j * 4 + i]\<close> of a fresh array of 16 zeros. Both arguments have 16 entries at every
  call of the source, so no read is out of range.
\<close>

definition mat4MultiplyCell :: "mat4 \<Rightarrow> mat4 \<Rightarrow> nat \<Rightarrow> nat \<Rightarrow> real" where
  "mat4MultiplyCell a b i j =
     a ! i * b ! (j * 4) +
     a ! (4 + i) * b ! (j * 4 + 1) +
     a ! (8 + i) * b ! (j * 4 + 2) +
     a ! (12 + i) * b ! (j * 4 + 3)"

definition mat4Multiply :: "mat4 \<Rightarrow> mat4 \<Rightarrow> mat4" where
  "mat4Multiply a b =
     fold (\<lambda>i out. fold (\<lambda>j out'. out'[j * 4 + i := mat4MultiplyCell a b i j]) [0, 1, 2, 3] out)
       [0, 1, 2, 3] (replicate 16 0)"

text \<open>
  The vertex stage (chromakey.js, line 18) multiplies a column-major uniform matrix with
  the position; \<open>aPosition\<close> is fed three components per vertex, so its fourth is 1.
\<close>

definition mat4MulVec :: "mat4 \<Rightarrow> vec4 \<Rightarrow> vec4" where
  "mat4MulVec m v =
     (case v of (x, y, z, w) \<Rightarrow>
        (m ! 0 * x + m ! 4 * y + m ! 8 * z + m ! 12 * w,
         m ! 1 * x + m ! 5 * y + m ! 9 * z + m ! 13 * w,
         m ! 2 * x + m ! 6 * y + m ! 10 * z + m ! 14 * w,
         m ! 3 * x + m ! 7 * y + m ! 11 * z + m ! 15 * w))"

definition IDENTITY :: mat4 where
  "IDENTITY =
     [1, 0, 0, 0,
      0, 1, 0, 0,
      0, 0, 1, 0,
      0, 0, 0, 1]"

section \<open>The fragment stage (chromakey.js, lines 22-36)\<close>

text \<open>
  The GLSL built-ins, as the language specification defines them. The result of
  \<open>smoothstep\<close> is undefined when \<open>edge0 \<ge> edge1\<close>; that is the value \<open>None\<close>.
\<close>

definition clamp :: "real \<Rightarrow> real \<Rightarrow> real \<Rightarrow> real" where
  "clamp x minVal maxVal = min (max x minVal) maxVal"

definition smoothstepBody :: "real \<Rightarrow> real \<Rightarrow> real \<Rightarrow> real" where
  "smoothstepBody edge0 edge1 x =
     (let t = clamp ((x - edge0) / (edge1 - edge0)) 0 1 in t * t * (3 - 2 * t))"

definition smoothstep :: "real \<Rightarrow> real \<Rightarrow> real \<Rightarrow> real option" where
  "smoothstep edge0 edge1 x =
     (if edge0 \<ge> edge1 then None else Some (smoothstepBody edge0 edge1 x))"

definition distance3 :: "vec3 \<Rightarrow> vec3 \<Rightarrow> real" where
  "distance3 p q =
     (case (p, q) of ((p0, p1, p2), (q0, q1, q2)) \<Rightarrow>
        sqrt ((p0 - q0) * (p0 - q0) + (p1 - q1) * (p1 - q1) + (p2 - q2) * (p2 - q2)))"

text \<open>Line 32: the alpha derived from the key distance \<open>diff\<close>.\<close>

definition fragAlpha :: "real \<Rightarrow> real \<Rightarrow> real \<Rightarrow> real option" where
  "fragAlpha uTolerance uSmoothing diff = smoothstep uTolerance (uTolerance + uSmoothing) diff"

text \<open>The outcome of the fragment stage for one pixel.\<close>

datatype fragment = Undefined | Discard | FragColor vec3 real

definition fragMain :: "vec3 \<Rightarrow> vec3 \<Rightarrow> real \<Rightarrow> real \<Rightarrow> fragment" where
  "fragMain texRgb uKeyColor uTolerance uSmoothing =
     (let diff = distance3 texRgb uKeyColor in
      case fragAlpha uTolerance uSmoothing diff of
        None \<Rightarrow> Undefined
      | Some alpha \<Rightarrow> if alpha < 0.01 then Discard else FragColor texRgb alpha)"

section \<open>ChromaKey (chromakey.js)\<close>

datatype canvas = PreviewCanvas | XRCanvas

datatype error = Error string | TypeError string | SecurityError string

fun message :: "error \<Rightarrow> string" where
  "message (Error m) = m"
| "message (TypeError m) = m"
| "message (SecurityError m) = m"

text \<open>
  The video element as the render loops and the texture upload read it: \<open>None\<close> until
  \<open>create\<close> of video-player.js has run; a width or height of 0 is what the element reports
  before it knows its dimensions; \<open>tainted\<close> holds for a cross-origin source loaded
  without \<open>crossOrigin\<close>, the last resort of \<open>load\<close> (video-player.js, lines 69-74), whose
  pixels a graphics context refuses to read.
\<close>

record videoElement =
  paused :: bool
  tainted :: bool
  videoWidth :: nat
  videoHeight :: nat

text \<open>
  \<open>KEY_COLORS\<close> (lines 39-43) is an object literal, so \<open>KEY_COLORS[name]\<close> finds the three
  own properties and, for any other name, what the object inherits from
  \<open>Object.prototype\<close>: functions and, for \<open>__proto__\<close>, the prototype object itself.
  All of them are truthy; every other name gives \<open>undefined\<close>, here \<open>None\<close>.
\<close>

datatype keyval = Preset vec3 | Inherited string

definition objectPrototypeMembers :: "string list" where
  "objectPrototypeMembers =
     [''constructor'', ''__proto__'', ''hasOwnProperty'', ''isPrototypeOf'',
      ''propertyIsEnumerable'', ''toLocaleString'', ''toString'', ''valueOf'',
      ''__defineGetter__'', ''__defineSetter__'', ''__lookupGetter__'', ''__lookupSetter__'']"

definition KEY_COLORS :: "string \<Rightarrow> keyval option" where
  "KEY_COLORS name =
     (if name = ''green'' then Some (Preset (0, 1, 0))
      else if name = ''blue'' then Some (Preset (0, 0, 1))
      else if name = ''black'' then Some (Preset (0, 0, 0))
      else if name \<in> set objectPrototypeMembers then Some (Inherited name)
      else None)"

type_synonym viewport = "int \<times> int \<times> int \<times> int"

text \<open>
  The module state (lines 46-57) and the part of the state of the graphics context that
  the calls of this module write: the bound framebuffer (\<open>None\<close> is the default one), the
  viewport, the uniforms of the program, and counters of the clears, of the texture uploads
  and of the \<open>drawArrays\<close> calls. \<open>gl\<close>, \<open>program\<close> and \<open>videoTexture\<close> hold the canvas whose
  context made them, \<open>None\<close> for \<open>null\<close>. The bound framebuffer and the viewport are kept
  once, not per context: what they are right after \<open>init\<close> has moved to another canvas is
  not part of the model.
\<close>

record chromakey =
  gl :: "canvas option"
  program :: "canvas option"
  videoTexture :: "canvas option"
  currentKeyColor :: keyval
  currentTolerance :: real
  currentSmoothing :: real
  boundFramebuffer :: "nat option"
  glViewport :: "viewport option"
  uniProjection :: mat4
  uniView :: mat4
  uniModel :: mat4
  uniKeyColor :: vec3
  uniTolerance :: real
  uniSmoothing :: real
  clears :: nat
  uploads :: nat
  draws :: nat

definition chromakey0 :: chromakey where
  "chromakey0 =
     \<lparr>gl = None, program = None, videoTexture = None,
      currentKeyColor = Preset (0, 1, 0), currentTolerance = 0.35, currentSmoothing = 0.10,
      boundFramebuffer = None, glViewport = None,
      uniProjection = replicate 16 0, uniView = replicate 16 0, uniModel = replicate 16 0,
      uniKeyColor = (0, 0, 0), uniTolerance = 0, uniSmoothing = 0,
      clears = 0, uploads = 0, draws = 0\<rparr>"

text \<open>
  \<open>init\<close> (lines 65-103). What the browser answers is a parameter: no context at all,
  a shader that does not compile or link, or success. A throw leaves the assignments made
  before it: the result is the exception, if any, and the state. A freshly linked program
  has all its uniforms zero.
\<close>

datatype initOutcome = InitOk | NoContext | ShaderError string

definition init :: "canvas \<Rightarrow> initOutcome \<Rightarrow> chromakey \<Rightarrow> error option \<times> chromakey" where
  "init cv outcome c =
     (case outcome of
        NoContext \<Rightarrow> (Some (Error ''WebGL not supported''), c\<lparr>gl := None\<rparr>)
      | ShaderError m \<Rightarrow> (Some (Error m), c\<lparr>gl := Some cv\<rparr>)
      | InitOk \<Rightarrow>
          (None, c\<lparr>gl := Some cv, program := Some cv, videoTexture := Some cv,
                   uniProjection := replicate 16 0, uniView := replicate 16 0,
                   uniModel := replicate 16 0, uniKeyColor := (0, 0, 0),
                   uniTolerance := 0, uniSmoothing := 0\<rparr>))"

text \<open>
  \<open>updateTexture\<close> (lines 164-168). \<open>texImage2D\<close> throws a SecurityError when the video is
  tainted, and uploads its current frame otherwise.
\<close>

definition updateTexture :: "videoElement \<Rightarrow> chromakey \<Rightarrow> error option \<times> chromakey" where
  "updateTexture v c =
     (if gl c = None \<or> videoTexture c = None then (None, c)
      else if tainted v then (Some (SecurityError ''texImage2D''), c)
      else (None, c\<lparr>uploads := Suc (uploads c)\<rparr>))"

text \<open>
  \<open>render\<close> (lines 181-215). \<open>uniform3fv\<close> throws a TypeError when its argument is not a
  sequence of numbers, which is the case of every inherited member. A program made by
  another context is rejected by the context with an error flag and no exception: those
  calls write nothing and draw nothing.
\<close>

definition render ::
    "mat4 \<Rightarrow> mat4 \<Rightarrow> mat4 \<Rightarrow> nat option \<Rightarrow> viewport option \<Rightarrow> chromakey \<Rightarrow> error option \<times> chromakey" where
  "render projectionMatrix viewMatrix modelMatrix framebuffer vp c =
     (if gl c = None \<or> program c = None then (None, c)
      else
        let c1 = c\<lparr>boundFramebuffer := framebuffer\<rparr>;
            c2 = (case vp of None \<Rightarrow> c1 | Some r \<Rightarrow> c1\<lparr>glViewport := Some r\<rparr>)
        in if program c2 \<noteq> gl c2 then
             (case currentKeyColor c2 of
                Inherited n \<Rightarrow> (Some (TypeError ''uniform3fv''), c2)
              | Preset k \<Rightarrow> (None, c2))
           else
             let c3 = c2\<lparr>uniProjection := projectionMatrix, uniView := viewMatrix,
                         uniModel := modelMatrix\<rparr>
             in (case currentKeyColor c3 of
                   Inherited n \<Rightarrow> (Some (TypeError ''uniform3fv''), c3)
                 | Preset k \<Rightarrow>
                     (None, c3\<lparr>uniKeyColor := k,
                               uniTolerance := currentTolerance c3,
                               uniSmoothing := currentSmoothing c3,
                               draws := Suc (draws c3)\<rparr>)))"

text \<open>
  \<open>renderPreview\<close> (lines 221-234); \<open>dims\<close> is the displayed size of the canvas, which
  becomes its backing size and the viewport. An exception of the upload ends it before the
  draw.
\<close>

definition renderPreview ::
    "int \<times> int \<Rightarrow> videoElement \<Rightarrow> chromakey \<Rightarrow> error option \<times> chromakey" where
  "renderPreview dims v c =
     (if gl c = None then (None, c)
      else
        let c1 = c\<lparr>glViewport := Some (0, 0, fst dims, snd dims), clears := Suc (clears c)\<rparr>
        in (case updateTexture v c1 of
              (Some e, c2) \<Rightarrow> (Some e, c2)
            | (None, c2) \<Rightarrow> render IDENTITY IDENTITY IDENTITY None None c2))"

text \<open>
  The setters (lines 238-248). \<open>parseFloat\<close> is applied to a number at every call of the
  source and to the decimal string of a range input, and gives that number back.
\<close>

definition parseFloat :: "real \<Rightarrow> real" where
  "parseFloat val = val"

definition setKeyColor :: "string \<Rightarrow> chromakey \<Rightarrow> chromakey" where
  "setKeyColor name c =
     (case KEY_COLORS name of None \<Rightarrow> c | Some v \<Rightarrow> c\<lparr>currentKeyColor := v\<rparr>)"

definition setTolerance :: "real \<Rightarrow> chromakey \<Rightarrow> chromakey" where
  "setTolerance val c = c\<lparr>currentTolerance := parseFloat val\<rparr>"

definition setSmoothing :: "real \<Rightarrow> chromakey \<Rightarrow> chromakey" where
  "setSmoothing val c = c\<lparr>currentSmoothing := parseFloat val\<rparr>"

text \<open>A sequence of setter calls, as a caller of the module makes them.\<close>

datatype keyOp = SetKeyColor string | SetTolerance real | SetSmoothing real

fun applyKeyOp :: "keyOp \<Rightarrow> chromakey \<Rightarrow> chromakey" where
  "applyKeyOp (SetKeyColor name) c = setKeyColor name c"
| "applyKeyOp (SetTolerance val) c = setTolerance val c"
| "applyKeyOp (SetSmoothing val) c = setSmoothing val c"

text \<open>
  What the caller expects to be in force after such a sequence: for each parameter the
  value of the last call that set it, and the value before the sequence if there is no
  such call. The names of the three presets are the ones that set a key colour.
\<close>

definition presetOf :: "string \<Rightarrow> vec3 option" where
  "presetOf name =
     (if name = ''green'' then Some (0, 1, 0)
      else if name = ''blue'' then Some (0, 0, 1)
      else if name = ''black'' then Some (0, 0, 0)
      else None)"

fun keyColorSet :: "keyOp \<Rightarrow> vec3 option" where
  "keyColorSet (SetKeyColor name) = presetOf name"
| "keyColorSet (SetTolerance val) = None"
| "keyColorSet (SetSmoothing val) = None"

fun toleranceSet :: "keyOp \<Rightarrow> real option" where
  "toleranceSet (SetKeyColor name) = None"
| "toleranceSet (SetTolerance val) = Some val"
| "toleranceSet (SetSmoothing val) = None"

fun smoothingSet :: "keyOp \<Rightarrow> real option" where
  "smoothingSet (SetKeyColor name) = None"
| "smoothingSet (SetTolerance val) = None"
| "smoothingSet (SetSmoothing val) = Some val"

definition lastSet :: "(keyOp \<Rightarrow> 'a option) \<Rightarrow> keyOp list \<Rightarrow> 'a \<Rightarrow> 'a" where
  "lastSet sel ops before =
     (case List.map_filter sel (rev ops) of [] \<Rightarrow> before | v # vs \<Rightarrow> v)"

fun plainName :: "keyOp \<Rightarrow> bool" where
  "plainName (SetKeyColor name) = (name \<notin> set objectPrototypeMembers)"
| "plainName (SetTolerance val) = True"
| "plainName (SetSmoothing val) = True"

section \<open>The state of the page\<close>

text \<open>
  The variables of UIController (ui-controller.js, lines 8-14), the status bar and the
  visibility of the overlay. The texts of the labels and the positions of the sliders are
  not part of the model.
\<close>

record uiState =
  currentColor :: string
  tolerance :: real
  smoothing :: real
  screenDistance :: real
  screenScale :: real
  screenOffsetX :: real
  screenOffsetY :: real
  statusBar :: "string \<times> string"
  xrOverlayVisible :: bool

definition uiState0 :: uiState where
  "uiState0 =
     \<lparr>currentColor = ''green'', tolerance = 0.35, smoothing = 0.10,
      screenDistance = 2.0, screenScale = 1.0, screenOffsetX = 0, screenOffsetY = 1.5,
      statusBar = ([], []), xrOverlayVisible = False\<rparr>"

definition MOVE_STEP :: real where "MOVE_STEP = 0.15"
definition DEPTH_STEP :: real where "DEPTH_STEP = 0.3"
definition SCALE_STEP :: real where "SCALE_STEP = 0.15"

text \<open>
  The variables of App (app.js, lines 6-10), the modules it calls, and what the browser
  and the host session hold for it: the identifiers of the pending
  \<open>requestAnimationFrame(loop)\<close> registrations and the last identifier handed out
  (identifiers are positive), the number of pending registrations of \<open>xrRenderLoop\<close> with
  the session, the sessions whose \<open>end\<close> event has \<open>onXREnd\<close> as a listener, and the
  requests that \<open>startXR\<close> makes to \<open>navigator.xr\<close>, in order.
\<close>

datatype hostCall = IsSessionSupported | RequestSession

record world =
  ui :: uiState
  ck :: chromakey
  video :: "videoElement option"
  videoReady :: bool
  xrSession :: "nat option"
  xrRefSpace :: "nat option"
  xrGLLayer :: "nat option"
  previewAnimId :: "nat option"
  isXR :: bool
  rafPending :: "nat list"
  rafLast :: nat
  xrRafPending :: nat
  endListeners :: "nat list"
  hostCalls :: "hostCall list"

definition world0 :: world where
  "world0 =
     \<lparr>ui = uiState0, ck = chromakey0, video = None, videoReady = False,
      xrSession = None, xrRefSpace = None, xrGLLayer = None, previewAnimId = None,
      isXR = False, rafPending = [], rafLast = 0, xrRafPending = 0, endListeners = [],
      hostCalls = []\<rparr>"

section \<open>UIController (ui-controller.js)\<close>

definition setStatus :: "string \<Rightarrow> string \<Rightarrow> world \<Rightarrow> world" where
  "setStatus msg type w = w\<lparr>ui := (ui w)\<lparr>statusBar := (msg, type)\<rparr>\<rparr>"

definition showXROverlay :: "bool \<Rightarrow> world \<Rightarrow> world" where
  "showXROverlay visible w = w\<lparr>ui := (ui w)\<lparr>xrOverlayVisible := visible\<rparr>\<rparr>"

text \<open>
  The \<open>input\<close> handlers of the sliders (lines 96-120, 191-197); \<open>val\<close> is the number that
  the value of the slider denotes.
\<close>

definition toleranceSliderInput :: "real \<Rightarrow> world \<Rightarrow> world" where
  "toleranceSliderInput val w =
     (let t = parseFloat val
      in w\<lparr>ui := (ui w)\<lparr>tolerance := t\<rparr>, ck := setTolerance t (ck w)\<rparr>)"

definition smoothingSliderInput :: "real \<Rightarrow> world \<Rightarrow> world" where
  "smoothingSliderInput val w =
     (let t = parseFloat val
      in w\<lparr>ui := (ui w)\<lparr>smoothing := t\<rparr>, ck := setSmoothing t (ck w)\<rparr>)"

definition distanceSliderInput :: "real \<Rightarrow> world \<Rightarrow> world" where
  "distanceSliderInput val w = w\<lparr>ui := (ui w)\<lparr>screenDistance := parseFloat val\<rparr>\<rparr>"

definition scaleSliderInput :: "real \<Rightarrow> world \<Rightarrow> world" where
  "scaleSliderInput val w = w\<lparr>ui := (ui w)\<lparr>screenScale := parseFloat val\<rparr>\<rparr>"

text \<open>
  The tap handlers of the overlay (lines 139-165). \<open>onTap\<close> (lines 30-44) runs a handler
  unless its \<open>handled\<close> flag is still set by a tap less than 300 ms before.
\<close>

definition onTap :: "bool \<Rightarrow> (world \<Rightarrow> world) \<Rightarrow> world \<Rightarrow> world" where
  "onTap handled handler w = (if handled then w else handler w)"

definition moveTap :: "string \<Rightarrow> world \<Rightarrow> world" where
  "moveTap dir w =
     (let u = ui w in
      w\<lparr>ui :=
        (if dir = ''left'' then u\<lparr>screenOffsetX := screenOffsetX u - MOVE_STEP\<rparr>
         else if dir = ''right'' then u\<lparr>screenOffsetX := screenOffsetX u + MOVE_STEP\<rparr>
         else if dir = ''up'' then u\<lparr>screenOffsetY := screenOffsetY u + MOVE_STEP\<rparr>
         else if dir = ''down'' then u\<lparr>screenOffsetY := screenOffsetY u - MOVE_STEP\<rparr>
         else if dir = ''closer'' then
           u\<lparr>screenDistance := max 0.3 (screenDistance u - DEPTH_STEP)\<rparr>
         else if dir = ''farther'' then
           u\<lparr>screenDistance := min 10 (screenDistance u + DEPTH_STEP)\<rparr>
         else u)\<rparr>)"

definition xrSmallerTap :: "world \<Rightarrow> world" where
  "xrSmallerTap w = w\<lparr>ui := (ui w)\<lparr>screenScale := max 0.2 (screenScale (ui w) - SCALE_STEP)\<rparr>\<rparr>"

definition xrBiggerTap :: "world \<Rightarrow> world" where
  "xrBiggerTap w = w\<lparr>ui := (ui w)\<lparr>screenScale := min 5 (screenScale (ui w) + SCALE_STEP)\<rparr>\<rparr>"

text \<open>\<open>setActiveColor\<close> (lines 286-300).\<close>

definition setActiveColor :: "string \<Rightarrow> world \<Rightarrow> world" where
  "setActiveColor color w =
     (let w1 = w\<lparr>ui := (ui w)\<lparr>currentColor := color\<rparr>, ck := setKeyColor color (ck w)\<rparr>
      in if color = ''black'' \<and> tolerance (ui w1) > 0.2 then
           w1\<lparr>ui := (ui w1)\<lparr>tolerance := 0.15\<rparr>, ck := setTolerance 0.15 (ck w1)\<rparr>
         else w1)"

text \<open>The colour toggle of the overlay (lines 182-188).\<close>

definition xrColorToggleTap :: "world \<Rightarrow> world" where
  "xrColorToggleTap w =
     (let c = currentColor (ui w)
      in setActiveColor
           (if c = ''green'' then ''blue'' else if c = ''blue'' then ''black'' else ''green'') w)"

text \<open>The operations of the provider that write the distance or the scale.\<close>

datatype placementOp =
  DistanceSlider real | ScaleSlider real | MoveTap string | SmallerTap | BiggerTap

fun applyPlacementOp :: "placementOp \<Rightarrow> world \<Rightarrow> world" where
  "applyPlacementOp (DistanceSlider val) w = distanceSliderInput val w"
| "applyPlacementOp (ScaleSlider val) w = scaleSliderInput val w"
| "applyPlacementOp (MoveTap dir) w = onTap False (moveTap dir) w"
| "applyPlacementOp SmallerTap w = onTap False xrSmallerTap w"
| "applyPlacementOp BiggerTap w = onTap False xrBiggerTap w"

text \<open>
  The range of the placement, both ends included, and the operations that ask for a value
  inside it: every tap, and a slider input whose value is in the range.
\<close>

definition placementRange :: "uiState \<Rightarrow> bool" where
  "placementRange u =
     (0.3 \<le> screenDistance u \<and> screenDistance u \<le> 10 \<and>
      0.2 \<le> screenScale u \<and> screenScale u \<le> 5)"

fun inRangeOp :: "placementOp \<Rightarrow> bool" where
  "inRangeOp (DistanceSlider val) = (0.3 \<le> val \<and> val \<le> 10)"
| "inRangeOp (ScaleSlider val) = (0.2 \<le> val \<and> val \<le> 5)"
| "inRangeOp (MoveTap dir) = True"
| "inRangeOp SmallerTap = True"
| "inRangeOp BiggerTap = True"

section \<open>App (app.js)\<close>

subsection \<open>The preview loop (lines 88-98)\<close>

definition requestPreviewFrame :: "world \<Rightarrow> world" where
  "requestPreviewFrame w =
     (let n = Suc (rafLast w)
      in w\<lparr>rafLast := n, rafPending := rafPending w @ [n], previewAnimId := Some n\<rparr>)"

definition loop :: "int \<times> int \<Rightarrow> world \<Rightarrow> error option \<times> world" where
  "loop dims w =
     (if isXR w then (None, w)
      else
        (case (case video w of
                 None \<Rightarrow> (None, ck w)
               | Some v \<Rightarrow>
                   if videoReady w \<and> \<not> paused v then renderPreview dims v (ck w)
                   else (None, ck w)) of
           (Some e, c) \<Rightarrow> (Some e, w\<lparr>ck := c\<rparr>)
         | (None, c) \<Rightarrow> (None, requestPreviewFrame (w\<lparr>ck := c\<rparr>))))"

definition startPreviewLoop :: "int \<times> int \<Rightarrow> world \<Rightarrow> error option \<times> world" where
  "startPreviewLoop dims w = loop dims w"

text \<open>The browser runs the pending registration \<open>n\<close>.\<close>

definition previewFrame :: "nat \<Rightarrow> int \<times> int \<Rightarrow> world \<Rightarrow> error option \<times> world" where
  "previewFrame n dims w =
     (if n \<in> set (rafPending w) then loop dims (w\<lparr>rafPending := removeAll n (rafPending w)\<rparr>)
      else (None, w))"

text \<open>
  \<open>init\<close> of App (lines 59-67), up to the start of the preview loop; the capability query
  that follows it (lines 70-78) only sets a tooltip.
\<close>

definition appInit :: "initOutcome \<Rightarrow> int \<times> int \<Rightarrow> world \<Rightarrow> error option \<times> world" where
  "appInit previewInit dims w =
     (case init PreviewCanvas previewInit (ck w) of
        (Some e, c) \<Rightarrow> (Some e, w\<lparr>ck := c\<rparr>)
      | (None, c) \<Rightarrow> startPreviewLoop dims (w\<lparr>ck := c\<rparr>))"

subsection \<open>Entering the immersive mode (lines 102-151)\<close>

text \<open>
  What the host answers to the requests of \<open>startXR\<close>: whether \<open>navigator.xr\<close> exists, and
  for each awaited promise either the message of its rejection or its value; what the
  browser answers to \<open>ChromaKey.init\<close> on the immersive canvas; whether the video starts
  when asked to play. The awaits are run to completion: no other handler is interleaved.
\<close>

record host =
  navigatorXR :: bool
  supportedReply :: "string + bool"
  sessionReply :: "string + nat"
  xrInit :: initOutcome
  layerReply :: "string + nat"
  refSpaceReply :: "string + nat"
  playStarts :: bool

definition play :: "bool \<Rightarrow> world \<Rightarrow> world" where
  "play starts w =
     (case video w of
        None \<Rightarrow> w
      | Some v \<Rightarrow> if starts then w\<lparr>video := Some (v\<lparr>paused := False\<rparr>)\<rparr> else w)"

definition cancelPreview :: "world \<Rightarrow> world" where
  "cancelPreview w =
     (case previewAnimId w of
        None \<Rightarrow> w
      | Some n \<Rightarrow> if n \<noteq> 0 then w\<lparr>rafPending := removeAll n (rafPending w)\<rparr> else w)"

text \<open>The \<open>catch\<close> block (lines 147-150).\<close>

definition startXRFailed :: "string \<Rightarrow> world \<Rightarrow> world" where
  "startXRFailed msg w = (setStatus (''Failed to start XR: '' @ msg) ''error'' w)\<lparr>isXR := False\<rparr>"

text \<open>Lines 123-145, once the session \<open>sess\<close> is there.\<close>

definition startXRSession :: "host \<Rightarrow> nat \<Rightarrow> world \<Rightarrow> world" where
  "startXRSession h sess w =
     (let w1 = cancelPreview (w\<lparr>xrSession := Some sess, isXR := True\<rparr>)
      in case init XRCanvas (xrInit h) (ck w1) of
           (Some e, c) \<Rightarrow> startXRFailed (message e) (w1\<lparr>ck := c\<rparr>)
         | (None, c) \<Rightarrow>
             (case layerReply h of
                Inl m \<Rightarrow> startXRFailed m (w1\<lparr>ck := c\<rparr>)
              | Inr layer \<Rightarrow>
                  (case refSpaceReply h of
                     Inl m \<Rightarrow> startXRFailed m (w1\<lparr>ck := c, xrGLLayer := Some layer\<rparr>)
                   | Inr space \<Rightarrow>
                       let w2 = showXROverlay True
                                  (w1\<lparr>ck := c, xrGLLayer := Some layer, xrRefSpace := Some space\<rparr>);
                           w3 = w2\<lparr>xrRafPending := Suc (xrRafPending w2),
                                    endListeners := List.insert sess (endListeners w2)\<rparr>
                       in play (playStarts h) w3)))"

definition startXR :: "host \<Rightarrow> world \<Rightarrow> world" where
  "startXR h w =
     (if \<not> navigatorXR h then
        setStatus ''WebXR not available. Use Meta Quest Browser.'' ''error'' w
      else
        let w1 = w\<lparr>hostCalls := hostCalls w @ [IsSessionSupported]\<rparr>
        in case supportedReply h of
             Inl m \<Rightarrow> startXRFailed m w1
           | Inr supported \<Rightarrow>
               if \<not> supported then
                 setStatus ''Immersive AR not supported on this device.'' ''error'' w1
               else
                 let w2 = w1\<lparr>hostCalls := hostCalls w1 @ [RequestSession]\<rparr>
                 in (case sessionReply h of
                       Inl m \<Rightarrow> startXRFailed m w2
                     | Inr sess \<Rightarrow> startXRSession h sess w2))"

subsection \<open>The immersive frame callback (lines 153-200)\<close>

text \<open>
  A view of the pose: its projection matrix, the matrix of the inverse of its transform,
  and the viewport the layer gives for it.
\<close>

record xrView =
  projectionMatrix :: mat4
  inverseMatrix :: mat4
  layerViewport :: viewport

text \<open>Lines 186-196: the aspect ratio and the model matrix of one view.\<close>

definition aspectOf :: "videoElement option \<Rightarrow> real" where
  "aspectOf vid =
     (case vid of
        None \<Rightarrow> 16 / 9
      | Some v \<Rightarrow>
          if videoWidth v \<noteq> 0 \<and> videoHeight v \<noteq> 0
          then real (videoWidth v) / real (videoHeight v)
          else 16 / 9)"

definition halfWidth :: "uiState \<Rightarrow> videoElement option \<Rightarrow> real" where
  "halfWidth u vid = screenScale u * aspectOf vid * 0.5"

definition halfHeight :: "uiState \<Rightarrow> real" where
  "halfHeight u = screenScale u * 0.5"

definition buildModelMatrix :: "uiState \<Rightarrow> videoElement option \<Rightarrow> mat4" where
  "buildModelMatrix u vid =
     (let translateMat = mat4Translate (screenOffsetX u) (screenOffsetY u) (- screenDistance u);
          scaleMat = mat4Scale (halfWidth u vid) (halfHeight u) 1
      in mat4Multiply translateMat scaleMat)"

text \<open>The loop over the views (lines 172-199); an exception of \<open>render\<close> ends it.\<close>

fun drawViews :: "xrView list \<Rightarrow> world \<Rightarrow> error option \<times> world" where
  "drawViews [] w = (None, w)"
| "drawViews (v # vs) w =
     (let c1 = (ck w)\<lparr>glViewport := Some (layerViewport v)\<rparr>;
          modelMatrix = buildModelMatrix (ui w) (video w)
      in case render (projectionMatrix v) (inverseMatrix v) modelMatrix (xrGLLayer w)
                (Some (layerViewport v)) c1 of
           (Some e, c2) \<Rightarrow> (Some e, w\<lparr>ck := c2\<rparr>)
         | (None, c2) \<Rightarrow> drawViews vs (w\<lparr>ck := c2\<rparr>))"

text \<open>
  The callback. \<open>frame\<close> is \<open>None\<close> for a missing frame object; otherwise it holds what
  \<open>getViewerPose\<close> returns for it: \<open>None\<close> for a null pose, or the views. Calling a method
  of a null context or reading the framebuffer of a null layer throws a TypeError; an
  exception of the upload ends the callback before the views.
\<close>

definition xrRenderLoop :: "xrView list option option \<Rightarrow> world \<Rightarrow> error option \<times> world" where
  "xrRenderLoop frame w =
     (case (xrSession w, frame) of
        (Some sess, Some pose) \<Rightarrow>
          let w1 = w\<lparr>xrRafPending := Suc (xrRafPending w)\<rparr>
          in (case pose of
                None \<Rightarrow> (None, w1)
              | Some views \<Rightarrow>
                  (case (gl (ck w1), xrGLLayer w1) of
                     (Some cv, Some layer) \<Rightarrow>
                       let c1 = (ck w1)\<lparr>boundFramebuffer := Some layer,
                                        clears := Suc (clears (ck w1))\<rparr>
                       in (case (case video w1 of
                                   None \<Rightarrow> (None, c1)
                                 | Some v \<Rightarrow>
                                     if \<not> paused v then updateTexture v c1 else (None, c1)) of
                             (Some e, c2) \<Rightarrow> (Some e, w1\<lparr>ck := c2\<rparr>)
                           | (None, c2) \<Rightarrow> drawViews views (w1\<lparr>ck := c2\<rparr>))
                   | _ \<Rightarrow> (Some (TypeError ''null''), w1)))
      | _ \<Rightarrow> (None, w))"

text \<open>The host runs one pending registration of the callback with the frame.\<close>

definition xrFrame :: "xrView list option \<Rightarrow> world \<Rightarrow> error option \<times> world" where
  "xrFrame pose w =
     (if xrRafPending w = 0 then (None, w)
      else xrRenderLoop (Some pose) (w\<lparr>xrRafPending := xrRafPending w - 1\<rparr>))"

subsection \<open>Leaving the immersive mode (lines 202-219)\<close>

definition onXREnd :: "initOutcome \<Rightarrow> int \<times> int \<Rightarrow> world \<Rightarrow> error option \<times> world" where
  "onXREnd previewInit dims w =
     (let w1 = showXROverlay False (w\<lparr>isXR := False, xrSession := None\<rparr>)
      in case init PreviewCanvas previewInit (ck w1) of
           (Some e, c) \<Rightarrow> (Some e, w1\<lparr>ck := c\<rparr>)
         | (None, c) \<Rightarrow>
             (case startPreviewLoop dims (w1\<lparr>ck := c\<rparr>) of
                (Some e, w2) \<Rightarrow> (Some e, w2)
              | (None, w2) \<Rightarrow> (None, setStatus ''Exited MR mode.'' [] w2)))"

text \<open>
  The session \<open>sess\<close> ends: the host drops its pending frame callbacks and dispatches the
  \<open>end\<close> event to the listeners of that session.
\<close>

definition sessionEnd :: "nat \<Rightarrow> initOutcome \<Rightarrow> int \<times> int \<Rightarrow> world \<Rightarrow> error option \<times> world" where
  "sessionEnd sess previewInit dims w =
     (let w1 = w\<lparr>xrRafPending := 0\<rparr>
      in if sess \<in> set (endListeners w1) then
           onXREnd previewInit dims (w1\<lparr>endListeners := removeAll sess (endListeners w1)\<rparr>)
         else (None, w1))"

definition endXR :: "initOutcome \<Rightarrow> int \<times> int \<Rightarrow> world \<Rightarrow> error option \<times> world" where
  "endXR previewInit dims w =
     (case xrSession w of
        None \<Rightarrow> (None, w)
      | Some sess \<Rightarrow> sessionEnd sess previewInit dims w)"

text \<open>
  The immersive mode as a successful \<open>startXR\<close> leaves it: the session \<open>sess\<close> is the
  current one, \<open>onXREnd\<close> listens to its end, and no registration of the preview loop is
  pending.
\<close>

definition immersive :: "nat \<Rightarrow> world \<Rightarrow> bool" where
  "immersive sess w =
     (isXR w \<and> xrSession w = Some sess \<and> sess \<in> set (endListeners w) \<and> rafPending w = [])"

text \<open>
  The preview scheduler holds at most one registration, and it is the one whose identifier
  is in \<open>previewAnimId\<close>.
\<close>

definition previewSingle :: "world \<Rightarrow> bool" where
  "previewSingle w =
     (rafPending w = [] \<or>
      (\<exists>n. n \<noteq> 0 \<and> previewAnimId w = Some n \<and> rafPending w = [n]))"

text \<open>
  The first pass of the preview loop does not throw: either it does not draw (no video,
  or a video that is not ready or is paused), or the video is not tainted and the key
  colour is a preset.
\<close>

fun isPreset :: "keyval \<Rightarrow> bool" where
  "isPreset (Preset k) = True"
| "isPreset (Inherited n) = False"

definition previewDrawSafe :: "world \<Rightarrow> bool" where
  "previewDrawSafe w =
     (case video w of
        None \<Rightarrow> True
      | Some v \<Rightarrow>
          \<not> (videoReady w \<and> \<not> paused v) \<or> (\<not> tainted v \<and> isPreset (currentKeyColor (ck w))))"

text \<open>
  A run of the page, for the theorems that evaluate the code: the page is initialised
  without a video, \<open>load\<close> of video-player.js falls back to its last resort and the video
  it marks ready is playing, and \<open>startXR\<close> enters the immersive mode with a host that
  accepts every request and gives the session 7.
\<close>

definition lastResortVideo :: videoElement where
  "lastResortVideo = \<lparr>paused = False, tainted = True, videoWidth = 1920, videoHeight = 1080\<rparr>"

definition acceptingHost :: host where
  "acceptingHost =
     \<lparr>navigatorXR = True, supportedReply = Inr True, sessionReply = Inr 7,
      xrInit = InitOk, layerReply = Inr 3, refSpaceReply = Inr 5, playStarts = True\<rparr>"

definition lastResortRun :: world where
  "lastResortRun =
     startXR acceptingHost
       ((snd (appInit InitOk (640, 360) world0))
          \<lparr>video := Some lastResortVideo, videoReady := True\<rparr>)"

section \<open>Theorems\<close>

subsection \<open>The smoothstep ramp\<close>

lemma clamp_unit: "0 \<le> clamp u 0 1 \<and> clamp u 0 1 \<le> 1"
  by (simp add: clamp_def)

lemma clamp_mono: "u \<le> v \<Longrightarrow> clamp u 0 1 \<le> clamp v 0 1"
  by (simp add: clamp_def min_def max_def)

lemma hermite_mono:
  fixes a b :: real
  assumes "0 \<le> a" "a \<le> b" "b \<le> 1"
  shows "a * a * (3 - 2 * a) \<le> b * b * (3 - 2 * b)"
proof -
  have aa: "a * a \<le> a" using assms by (simp add: mult_left_le)
  have bb: "b * b \<le> b" using assms by (simp add: mult_left_le)
  have ab: "a * b \<le> a" using assms by (simp add: mult_left_le)
  have ab': "a * b \<le> b" using assms by (simp add: mult_left_le_one_le)
  have "2 * (a * a) + 2 * (a * b) + 2 * (b * b) \<le> 3 * a + 3 * b"
    using aa bb ab ab' by linarith
  then have "0 \<le> 3 * (a + b) - 2 * (a * a + a * b + b * b)"
    by (simp add: algebra_simps)
  then have "0 \<le> (b - a) * (3 * (a + b) - 2 * (a * a + a * b + b * b))"
    using assms by simp
  also have "\<dots> = b * b * (3 - 2 * b) - a * a * (3 - 2 * a)"
    by (simp add: algebra_simps)
  finally show ?thesis by simp
qed

lemma smoothstepBody_mono:
  assumes "e0 < e1" "x \<le> y"
  shows "smoothstepBody e0 e1 x \<le> smoothstepBody e0 e1 y"
proof -
  have "(x - e0) / (e1 - e0) \<le> (y - e0) / (e1 - e0)"
    using assms by (simp add: divide_right_mono)
  then have "clamp ((x - e0) / (e1 - e0)) 0 1 \<le> clamp ((y - e0) / (e1 - e0)) 0 1"
    by (rule clamp_mono)
  then show ?thesis
    unfolding smoothstepBody_def Let_def
    using clamp_unit [of "(x - e0) / (e1 - e0)"] clamp_unit [of "(y - e0) / (e1 - e0)"]
    by (intro hermite_mono) simp_all
qed

lemma smoothstepBody_low:
  assumes "e0 < e1" "x \<le> e0"
  shows "smoothstepBody e0 e1 x = 0"
proof -
  have "(x - e0) / (e1 - e0) \<le> 0"
    using assms by (simp add: divide_le_0_iff)
  then have "clamp ((x - e0) / (e1 - e0)) 0 1 = 0"
    by (simp add: clamp_def)
  then show ?thesis by (simp add: smoothstepBody_def)
qed

lemma smoothstepBody_high:
  assumes "e0 < e1" "e1 \<le> x"
  shows "smoothstepBody e0 e1 x = 1"
proof -
  have "1 \<le> (x - e0) / (e1 - e0)"
    using assms by (simp add: le_divide_eq)
  then have "clamp ((x - e0) / (e1 - e0)) 0 1 = 1"
    by (simp add: clamp_def)
  then show ?thesis by (simp add: smoothstepBody_def)
qed

lemma smoothstepBody_continuous: "continuous_on UNIV (smoothstepBody e0 e1)"
proof -
  have "continuous_on UNIV
      (\<lambda>x. min (max ((x - e0) * inverse (e1 - e0)) 0) 1
           * min (max ((x - e0) * inverse (e1 - e0)) 0) 1
           * (3 - 2 * min (max ((x - e0) * inverse (e1 - e0)) 0) 1))"
    by (intro continuous_intros)
  then show ?thesis
    by (simp add: smoothstepBody_def [abs_def] clamp_def Let_def divide_inverse)
qed

lemma fragAlpha_Some: "0 < s \<Longrightarrow> fragAlpha t s d = Some (smoothstepBody t (t + s) d)"
  by (simp add: fragAlpha_def smoothstep_def)

text \<open>
  C1, as amended. For every tolerance \<open>t\<close> and every smoothing \<open>s > 0\<close> the alpha of the
  fragment stage is \<open>smoothstep(t, t + s, d)\<close>: it is defined, non-decreasing in the key
  distance \<open>d\<close>, 0 for \<open>d \<le> t\<close>, 1 for \<open>d \<ge> t + s\<close> and continuous in \<open>d\<close>; the pixel is
  discarded exactly when that alpha is below 0.01 and is otherwise written with the sampled
  colour and that alpha; for \<open>t = 0.35\<close>, \<open>s = 0.10\<close>, \<open>d = 0.40\<close> the alpha is 0.5.
\<close>

theorem fragAlpha_ramp:
  "0 < s \<Longrightarrow>
     (\<forall>d. fragAlpha t s d = Some (smoothstepBody t (t + s) d)) \<and>
     (\<forall>d d'. d \<le> d' \<longrightarrow> smoothstepBody t (t + s) d \<le> smoothstepBody t (t + s) d') \<and>
     (\<forall>d. d \<le> t \<longrightarrow> smoothstepBody t (t + s) d = 0) \<and>
     (\<forall>d. t + s \<le> d \<longrightarrow> smoothstepBody t (t + s) d = 1) \<and>
     continuous_on UNIV (smoothstepBody t (t + s)) \<and>
     (\<forall>rgb key. fragMain rgb key t s =
        (if smoothstepBody t (t + s) (distance3 rgb key) < 0.01 then Discard
         else FragColor rgb (smoothstepBody t (t + s) (distance3 rgb key)))) \<and>
     fragAlpha 0.35 0.10 0.40 = Some 0.5"
proof -
  assume s: "0 < s"
  then have e: "t < t + s" by simp
  have 1: "\<forall>d. fragAlpha t s d = Some (smoothstepBody t (t + s) d)"
    using s by (simp add: fragAlpha_Some)
  have 2: "\<forall>d d'. d \<le> d' \<longrightarrow> smoothstepBody t (t + s) d \<le> smoothstepBody t (t + s) d'"
    using e by (simp add: smoothstepBody_mono)
  have 3: "\<forall>d. d \<le> t \<longrightarrow> smoothstepBody t (t + s) d = 0"
    using e by (simp add: smoothstepBody_low)
  have 4: "\<forall>d. t + s \<le> d \<longrightarrow> smoothstepBody t (t + s) d = 1"
    using e by (simp add: smoothstepBody_high)
  have 5: "\<forall>rgb key. fragMain rgb key t s =
        (if smoothstepBody t (t + s) (distance3 rgb key) < 0.01 then Discard
         else FragColor rgb (smoothstepBody t (t + s) (distance3 rgb key)))"
    using s by (simp add: fragMain_def fragAlpha_Some)
  have 6: "fragAlpha 0.35 0.10 0.40 = Some 0.5"
    by (simp add: fragAlpha_def smoothstep_def smoothstepBody_def clamp_def)
  show ?thesis
    using 1 2 3 4 5 6 smoothstepBody_continuous [of t "t + s"] by blast
qed

text \<open>
  The ramp at tolerance 0.35 and smoothing 0.10: alpha 0.5 in the middle, 0 and 1 at its
  ends; a pixel of the key colour is discarded, a pixel at distance 1 is written opaque.
\<close>

theorem fragAlpha_ramp_witness:
  "(0::real) < 0.10 \<and> fragAlpha 0.35 0.10 0.40 = Some 0.5 \<and>
   fragAlpha 0.35 0.10 0.35 = Some 0 \<and> fragAlpha 0.35 0.10 0.45 = Some 1 \<and>
   fragMain (0, 1, 0) (0, 1, 0) 0.35 0.10 = Discard \<and>
   fragMain (1, 1, 0) (0, 1, 0) 0.35 0.10 = FragColor (1, 1, 0) 1"
  using fragAlpha_ramp [of "0.10" "0.35"]
  by (simp add: smoothstepBody_def clamp_def distance3_def)

text \<open>
  C1 as stated admits smoothing 0. There the two ends of the ramp are the same distance,
  where the claim asks for alpha 0 and for alpha 1 at once; the built-in leaves the result
  undefined.
\<close>

theorem fragAlpha_zero_smoothing_counterexample:
  "fragAlpha 0.35 0 0.35 = None \<and>
   \<not> (fragAlpha 0.35 0 0.35 = Some 0 \<and> fragAlpha 0.35 0 0.35 = Some 1)"
  by (simp add: fragAlpha_def smoothstep_def)

subsection \<open>The model matrix\<close>

lemma mat4Multiply_cells:
  "mat4Multiply a b =
     [mat4MultiplyCell a b 0 0, mat4MultiplyCell a b 1 0, mat4MultiplyCell a b 2 0,
      mat4MultiplyCell a b 3 0,
      mat4MultiplyCell a b 0 1, mat4MultiplyCell a b 1 1, mat4MultiplyCell a b 2 1,
      mat4MultiplyCell a b 3 1,
      mat4MultiplyCell a b 0 2, mat4MultiplyCell a b 1 2, mat4MultiplyCell a b 2 2,
      mat4MultiplyCell a b 3 2,
      mat4MultiplyCell a b 0 3, mat4MultiplyCell a b 1 3, mat4MultiplyCell a b 2 3,
      mat4MultiplyCell a b 3 3]"
  by (simp add: mat4Multiply_def numeral_eq_Suc)

lemma translate_scale:
  "mat4Multiply (mat4Translate x y z) (mat4Scale sx sy sz) =
     [sx, 0, 0, 0,  0, sy, 0, 0,  0, 0, sz, 0,  x, y, z, 1]"
  by (simp add: mat4Multiply_cells mat4MultiplyCell_def mat4Translate_def mat4Scale_def)

lemma buildModelMatrix_entries:
  "buildModelMatrix u vid =
     [halfWidth u vid, 0, 0, 0,  0, halfHeight u, 0, 0,  0, 0, 1, 0,
      screenOffsetX u, screenOffsetY u, - screenDistance u, 1]"
  by (simp add: buildModelMatrix_def translate_scale)

text \<open>
  C2. The model matrix of a view is \<open>mat4Multiply\<close> of the translation by
  (offsetX, offsetY, -distance) and the scale by (halfWidth, halfHeight, 1), with
  halfWidth = scale * aspect * 0.5 and halfHeight = scale * 0.5, the aspect being 16/9
  when there is no video or one of its dimensions is 0 and width / height otherwise. It
  maps a point (x, y, z) of the quad to
  (halfWidth * x + offsetX, halfHeight * y + offsetY, z - distance), which is the scale
  followed by the translation; the centre goes to (offsetX, offsetY, -distance) and the
  corners (-1, -1, 0) and (1, 1, 0) go to the centre minus and plus
  (halfWidth, halfHeight, 0).
\<close>

theorem model_matrix_placement:
  "buildModelMatrix u vid =
     mat4Multiply (mat4Translate (screenOffsetX u) (screenOffsetY u) (- screenDistance u))
       (mat4Scale (halfWidth u vid) (halfHeight u) 1) \<and>
   halfWidth u vid = screenScale u * aspectOf vid * 0.5 \<and>
   halfHeight u = screenScale u * 0.5 \<and>
   aspectOf None = 16 / 9 \<and>
   aspectOf (Some \<lparr>paused = p, tainted = t, videoWidth = 0, videoHeight = h\<rparr>) = 16 / 9 \<and>
   aspectOf (Some \<lparr>paused = p, tainted = t, videoWidth = n, videoHeight = 0\<rparr>) = 16 / 9 \<and>
   aspectOf (Some \<lparr>paused = p, tainted = t, videoWidth = Suc n, videoHeight = Suc h\<rparr>) =
     real (Suc n) / real (Suc h) \<and>
   mat4MulVec (buildModelMatrix u vid) (x, y, z, 1) =
     (halfWidth u vid * x + screenOffsetX u, halfHeight u * y + screenOffsetY u,
      z - screenDistance u, 1) \<and>
   mat4MulVec (buildModelMatrix u vid) (x, y, z, 1) =
     mat4MulVec (mat4Translate (screenOffsetX u) (screenOffsetY u) (- screenDistance u))
       (mat4MulVec (mat4Scale (halfWidth u vid) (halfHeight u) 1) (x, y, z, 1)) \<and>
   mat4MulVec (buildModelMatrix u vid) (0, 0, 0, 1) =
     (screenOffsetX u, screenOffsetY u, - screenDistance u, 1) \<and>
   mat4MulVec (buildModelMatrix u vid) (-1, -1, 0, 1) =
     (screenOffsetX u - halfWidth u vid, screenOffsetY u - halfHeight u,
      - screenDistance u, 1) \<and>
   mat4MulVec (buildModelMatrix u vid) (1, 1, 0, 1) =
     (screenOffsetX u + halfWidth u vid, screenOffsetY u + halfHeight u,
      - screenDistance u, 1)"
proof -
  have d: "\<And>x y z. mat4MulVec (buildModelMatrix u vid) (x, y, z, 1) =
     (halfWidth u vid * x + screenOffsetX u, halfHeight u * y + screenOffsetY u,
      z - screenDistance u, 1)"
    by (simp add: buildModelMatrix_entries mat4MulVec_def)
  have e: "mat4MulVec (mat4Translate (screenOffsetX u) (screenOffsetY u) (- screenDistance u))
       (mat4MulVec (mat4Scale (halfWidth u vid) (halfHeight u) 1) (x, y, z, 1)) =
     (halfWidth u vid * x + screenOffsetX u, halfHeight u * y + screenOffsetY u,
      z - screenDistance u, 1)"
    by (simp add: mat4MulVec_def mat4Translate_def mat4Scale_def)
  show ?thesis
  proof (intro conjI)
    show "buildModelMatrix u vid =
      mat4Multiply (mat4Translate (screenOffsetX u) (screenOffsetY u) (- screenDistance u))
        (mat4Scale (halfWidth u vid) (halfHeight u) 1)"
      by (simp add: buildModelMatrix_def)
    show "halfWidth u vid = screenScale u * aspectOf vid * 0.5"
      by (simp add: halfWidth_def)
    show "halfHeight u = screenScale u * 0.5"
      by (simp add: halfHeight_def)
    show "aspectOf None = 16 / 9"
      by (simp add: aspectOf_def)
    show "aspectOf (Some \<lparr>paused = p, tainted = t, videoWidth = 0, videoHeight = h\<rparr>) = 16 / 9"
      by (simp add: aspectOf_def)
    show "aspectOf (Some \<lparr>paused = p, tainted = t, videoWidth = n, videoHeight = 0\<rparr>) = 16 / 9"
      by (simp add: aspectOf_def)
    show "aspectOf (Some \<lparr>paused = p, tainted = t, videoWidth = Suc n,
          videoHeight = Suc h\<rparr>) =
        real (Suc n) / real (Suc h)"
      by (simp add: aspectOf_def)
    show "mat4MulVec (buildModelMatrix u vid) (x, y, z, 1) =
       (halfWidth u vid * x + screenOffsetX u, halfHeight u * y + screenOffsetY u,
        z - screenDistance u, 1)"
      by (rule d)
    show "mat4MulVec (buildModelMatrix u vid) (x, y, z, 1) =
       mat4MulVec (mat4Translate (screenOffsetX u) (screenOffsetY u) (- screenDistance u))
         (mat4MulVec (mat4Scale (halfWidth u vid) (halfHeight u) 1) (x, y, z, 1))"
      by (simp only: d e)
    show "mat4MulVec (buildModelMatrix u vid) (0, 0, 0, 1) =
       (screenOffsetX u, screenOffsetY u, - screenDistance u, 1)"
      by (simp add: d)
    show "mat4MulVec (buildModelMatrix u vid) (-1, -1, 0, 1) =
       (screenOffsetX u - halfWidth u vid, screenOffsetY u - halfHeight u,
        - screenDistance u, 1)"
      by (simp add: d)
    show "mat4MulVec (buildModelMatrix u vid) (1, 1, 0, 1) =
       (screenOffsetX u + halfWidth u vid, screenOffsetY u + halfHeight u,
        - screenDistance u, 1)"
      by (simp add: d)
  qed
qed

text \<open>
  At the initial placement without a video: aspect 16/9 and scale 1 give the half-width
  8/9 and the half-height 1/2, around the centre (0, 1.5, -2).
\<close>

theorem model_matrix_placement_witness:
  "halfWidth uiState0 None = 8 / 9 \<and> halfHeight uiState0 = 1 / 2 \<and>
   mat4MulVec (buildModelMatrix uiState0 None) (1, 1, 0, 1) = (8 / 9, 2, - 2, 1) \<and>
   mat4MulVec (buildModelMatrix uiState0 None) (-1, -1, 0, 1) = (- (8 / 9), 1, - 2, 1)"
  using model_matrix_placement [of uiState0 None False False 0 0 1 1 0]
  by (simp add: uiState0_def halfWidth_def halfHeight_def aspectOf_def buildModelMatrix_def
      translate_scale mat4MulVec_def)

subsection \<open>The setters and the draw\<close>

lemma KEY_COLORS_plain:
  "name \<notin> set objectPrototypeMembers \<Longrightarrow> KEY_COLORS name = map_option Preset (presetOf name)"
  by (simp add: KEY_COLORS_def presetOf_def)

lemma lastSet_snoc:
  "lastSet sel (ops @ [x]) before = (case sel x of None \<Rightarrow> lastSet sel ops before | Some v \<Rightarrow> v)"
  by (simp add: lastSet_def List.map_filter_simps split: option.splits)

lemma applyKeyOp_fields:
  "gl (applyKeyOp x c) = gl c \<and> program (applyKeyOp x c) = program c \<and>
   draws (applyKeyOp x c) = draws c"
  by (cases x) (simp_all add: setKeyColor_def setTolerance_def setSmoothing_def split: option.splits)

lemma fold_applyKeyOp_fields:
  "gl (fold applyKeyOp ops c) = gl c \<and> program (fold applyKeyOp ops c) = program c \<and>
   draws (fold applyKeyOp ops c) = draws c"
  by (induction ops arbitrary: c) (simp_all add: applyKeyOp_fields)

lemma fold_applyKeyOp_tolerance:
  "currentTolerance (fold applyKeyOp ops c) = lastSet toleranceSet ops (currentTolerance c)"
proof (induction ops rule: rev_induct)
  case Nil
  show ?case by (simp add: lastSet_def List.map_filter_simps)
next
  case (snoc x xs)
  then show ?case
    by (cases x)
      (simp_all add: lastSet_snoc setKeyColor_def setTolerance_def setSmoothing_def
        parseFloat_def split: option.splits)
qed

lemma fold_applyKeyOp_smoothing:
  "currentSmoothing (fold applyKeyOp ops c) = lastSet smoothingSet ops (currentSmoothing c)"
proof (induction ops rule: rev_induct)
  case Nil
  show ?case by (simp add: lastSet_def List.map_filter_simps)
next
  case (snoc x xs)
  then show ?case
    by (cases x)
      (simp_all add: lastSet_snoc setKeyColor_def setTolerance_def setSmoothing_def
        parseFloat_def split: option.splits)
qed

lemma fold_applyKeyOp_keyColor:
  assumes "currentKeyColor c = Preset k" "list_all plainName ops"
  shows "currentKeyColor (fold applyKeyOp ops c) = Preset (lastSet keyColorSet ops k)"
  using assms(2)
proof (induction ops rule: rev_induct)
  case Nil
  show ?case by (simp add: lastSet_def List.map_filter_simps assms(1))
next
  case (snoc x xs)
  then show ?case
    by (cases x)
      (auto simp add: lastSet_snoc setKeyColor_def setTolerance_def setSmoothing_def
        KEY_COLORS_plain split: option.splits)
qed

lemma render_initialised:
  assumes "gl c = Some cv" "program c = Some cv" "currentKeyColor c = Preset k"
  shows "render P V M fb vp c =
    (None, c\<lparr>boundFramebuffer := fb,
             glViewport := (case vp of None \<Rightarrow> glViewport c | Some r \<Rightarrow> Some r),
             uniProjection := P, uniView := V, uniModel := M,
             uniKeyColor := k, uniTolerance := currentTolerance c,
             uniSmoothing := currentSmoothing c, draws := Suc (draws c)\<rparr>)"
  using assms by (cases vp) (simp_all add: render_def)

lemma KEY_COLORS_cases:
  "(KEY_COLORS name = None \<and> presetOf name = None) \<or>
   (\<exists>p. KEY_COLORS name = Some (Preset p) \<and> presetOf name = Some p) \<or>
   (KEY_COLORS name = Some (Inherited name))"
  by (simp add: KEY_COLORS_def presetOf_def)

lemma fold_applyKeyOp_preset:
  assumes "currentKeyColor c = Preset k"
  shows "currentKeyColor (fold applyKeyOp ops c) = Preset k' \<Longrightarrow> k' = lastSet keyColorSet ops k"
proof (induction ops arbitrary: k' rule: rev_induct)
  case Nil
  then show ?case by (simp add: lastSet_def List.map_filter_simps assms)
next
  case (snoc x xs)
  show ?case
  proof (cases x)
    case (SetKeyColor name)
    consider (miss) "KEY_COLORS name = None" "presetOf name = None"
      | (hit) p where "KEY_COLORS name = Some (Preset p)" "presetOf name = Some p"
      | (inherited) "KEY_COLORS name = Some (Inherited name)"
      using KEY_COLORS_cases [of name] by (elim disjE exE conjE) simp_all
    then show ?thesis
    proof cases
      case miss
      then have "currentKeyColor (fold applyKeyOp xs c) = Preset k'"
        using snoc.prems SetKeyColor by (simp add: setKeyColor_def)
      then have "k' = lastSet keyColorSet xs k" by (rule snoc.IH)
      then show ?thesis using miss SetKeyColor by (simp add: lastSet_snoc)
    next
      case hit
      then have "k' = p"
        using snoc.prems SetKeyColor by (simp add: setKeyColor_def)
      then show ?thesis using hit SetKeyColor by (simp add: lastSet_snoc)
    next
      case inherited
      then show ?thesis
        using snoc.prems SetKeyColor by (simp add: setKeyColor_def)
    qed
  next
    case (SetTolerance val)
    then have "currentKeyColor (fold applyKeyOp xs c) = Preset k'"
      using snoc.prems by (simp add: setTolerance_def)
    then have "k' = lastSet keyColorSet xs k" by (rule snoc.IH)
    then show ?thesis using SetTolerance by (simp add: lastSet_snoc)
  next
    case (SetSmoothing val)
    then have "currentKeyColor (fold applyKeyOp xs c) = Preset k'"
      using snoc.prems by (simp add: setSmoothing_def)
    then have "k' = lastSet keyColorSet xs k" by (rule snoc.IH)
    then show ?thesis using SetSmoothing by (simp add: lastSet_snoc)
  qed
qed

lemma render_throws:
  "gl c = Some cv \<Longrightarrow> program c = Some cv \<Longrightarrow> currentKeyColor c = Inherited n \<Longrightarrow>
   fst (render P V M fb vp c) = Some (TypeError ''uniform3fv'')"
  by (cases vp) (simp_all add: render_def)

text \<open>
  Where the draw does what C3 says. Take an initialised compositor whose key colour is a
  preset, any sequence of calls of setKeyColor, setTolerance and setSmoothing, and a draw
  right after it. If no name passed to setKeyColor is a member inherited from
  \<open>Object.prototype\<close>, the draw returns normally; and whenever the draw returns normally,
  the uniforms it has written are the key colour, the tolerance and the smoothing that the
  sequence set last (the values before the sequence for a parameter it did not set), and
  one quad was drawn.
\<close>

lemma render_after_setters:
  "gl c = Some cv \<Longrightarrow> program c = Some cv \<Longrightarrow> currentKeyColor c = Preset k \<Longrightarrow>
     (list_all plainName ops \<longrightarrow> fst (render P V M fb vp (fold applyKeyOp ops c)) = None) \<and>
     (fst (render P V M fb vp (fold applyKeyOp ops c)) = None \<longrightarrow>
        uniKeyColor (snd (render P V M fb vp (fold applyKeyOp ops c))) =
          lastSet keyColorSet ops k \<and>
        uniTolerance (snd (render P V M fb vp (fold applyKeyOp ops c))) =
          lastSet toleranceSet ops (currentTolerance c) \<and>
        uniSmoothing (snd (render P V M fb vp (fold applyKeyOp ops c))) =
          lastSet smoothingSet ops (currentSmoothing c) \<and>
        draws (snd (render P V M fb vp (fold applyKeyOp ops c))) = Suc (draws c))"
proof -
  assume a: "gl c = Some cv" "program c = Some cv" "currentKeyColor c = Preset k"
  let ?c = "fold applyKeyOp ops c"
  have g: "gl ?c = Some cv" "program ?c = Some cv" "draws ?c = draws c"
    using a fold_applyKeyOp_fields [of ops c] by simp_all
  have 1: "list_all plainName ops \<longrightarrow> fst (render P V M fb vp ?c) = None"
  proof
    assume "list_all plainName ops"
    then have "currentKeyColor ?c = Preset (lastSet keyColorSet ops k)"
      using a by (simp add: fold_applyKeyOp_keyColor)
    then show "fst (render P V M fb vp ?c) = None"
      by (simp add: render_initialised [OF g(1) g(2)])
  qed
  have 2: "fst (render P V M fb vp ?c) = None \<longrightarrow>
        uniKeyColor (snd (render P V M fb vp ?c)) = lastSet keyColorSet ops k \<and>
        uniTolerance (snd (render P V M fb vp ?c)) = lastSet toleranceSet ops (currentTolerance c) \<and>
        uniSmoothing (snd (render P V M fb vp ?c)) = lastSet smoothingSet ops (currentSmoothing c) \<and>
        draws (snd (render P V M fb vp ?c)) = Suc (draws c)"
  proof
    assume r: "fst (render P V M fb vp ?c) = None"
    show "uniKeyColor (snd (render P V M fb vp ?c)) = lastSet keyColorSet ops k \<and>
        uniTolerance (snd (render P V M fb vp ?c)) = lastSet toleranceSet ops (currentTolerance c) \<and>
        uniSmoothing (snd (render P V M fb vp ?c)) = lastSet smoothingSet ops (currentSmoothing c) \<and>
        draws (snd (render P V M fb vp ?c)) = Suc (draws c)"
    proof (cases "currentKeyColor ?c")
      case (Preset k')
      then have "k' = lastSet keyColorSet ops k"
        using a(3) by (rule fold_applyKeyOp_preset [rotated])
      then show ?thesis
        by (simp add: render_initialised [OF g(1) g(2) Preset] g(3) fold_applyKeyOp_tolerance
            fold_applyKeyOp_smoothing)
    next
      case (Inherited n)
      then show ?thesis
        using r render_throws [OF g(1) g(2) Inherited, of P V M fb vp] by simp
    qed
  qed
  show ?thesis using 1 2 by (rule conjI)
qed

text \<open>
  Five calls, one of them with an unknown name, and the draw: blue, tolerance 0.25,
  smoothing 0.2.
\<close>

lemma render_after_setters_example:
  "list_all plainName [SetTolerance 0.5, SetKeyColor ''blue'', SetSmoothing 0.2,
         SetKeyColor ''purple'', SetTolerance 0.25] \<and>
   fst (render IDENTITY IDENTITY IDENTITY None None
      (fold applyKeyOp [SetTolerance 0.5, SetKeyColor ''blue'', SetSmoothing 0.2,
         SetKeyColor ''purple'', SetTolerance 0.25]
         (snd (init PreviewCanvas InitOk chromakey0)))) = None \<and>
   uniKeyColor (snd (render IDENTITY IDENTITY IDENTITY None None
      (fold applyKeyOp [SetTolerance 0.5, SetKeyColor ''blue'', SetSmoothing 0.2,
         SetKeyColor ''purple'', SetTolerance 0.25]
         (snd (init PreviewCanvas InitOk chromakey0))))) = (0, 0, 1) \<and>
   uniTolerance (snd (render IDENTITY IDENTITY IDENTITY None None
      (fold applyKeyOp [SetTolerance 0.5, SetKeyColor ''blue'', SetSmoothing 0.2,
         SetKeyColor ''purple'', SetTolerance 0.25]
         (snd (init PreviewCanvas InitOk chromakey0))))) = 0.25 \<and>
   uniSmoothing (snd (render IDENTITY IDENTITY IDENTITY None None
      (fold applyKeyOp [SetTolerance 0.5, SetKeyColor ''blue'', SetSmoothing 0.2,
         SetKeyColor ''purple'', SetTolerance 0.25]
         (snd (init PreviewCanvas InitOk chromakey0))))) = 0.2"
  using render_after_setters [of "snd (init PreviewCanvas InitOk chromakey0)" PreviewCanvas
      "(0, 1, 0)"
      "[SetTolerance 0.5, SetKeyColor ''blue'', SetSmoothing 0.2, SetKeyColor ''purple'',
        SetTolerance 0.25]" IDENTITY IDENTITY IDENTITY None None]
  by (simp add: init_def chromakey0_def objectPrototypeMembers_def lastSet_def
      List.map_filter_simps presetOf_def)

text \<open>
  C3 fails on the code at a sequence with an inherited name. After a first draw with the
  initial parameters, the calls setKeyColor with \<open>constructor\<close>, setTolerance with 0.5 and
  setSmoothing with 0.3 store the tolerance 0.5 and the smoothing 0.3, but the draw right
  after them throws at the key colour, before it writes the tolerance and the smoothing:
  the uniforms keep 0.35 and 0.10, and nothing is drawn.
\<close>

theorem render_after_inherited_name:
  "uniTolerance (snd (render IDENTITY IDENTITY IDENTITY None None
        (snd (init PreviewCanvas InitOk chromakey0)))) = 0.35 \<and>
   uniSmoothing (snd (render IDENTITY IDENTITY IDENTITY None None
        (snd (init PreviewCanvas InitOk chromakey0)))) = 0.10 \<and>
   currentTolerance
     (fold applyKeyOp [SetKeyColor ''constructor'', SetTolerance 0.5, SetSmoothing 0.3]
      (snd (render IDENTITY IDENTITY IDENTITY None None
        (snd (init PreviewCanvas InitOk chromakey0))))) = 0.5 \<and>
   currentSmoothing
     (fold applyKeyOp [SetKeyColor ''constructor'', SetTolerance 0.5, SetSmoothing 0.3]
      (snd (render IDENTITY IDENTITY IDENTITY None None
        (snd (init PreviewCanvas InitOk chromakey0))))) = 0.3 \<and>
   fst (render IDENTITY IDENTITY IDENTITY None None
     (fold applyKeyOp [SetKeyColor ''constructor'', SetTolerance 0.5, SetSmoothing 0.3]
      (snd (render IDENTITY IDENTITY IDENTITY None None
        (snd (init PreviewCanvas InitOk chromakey0)))))) = Some (TypeError ''uniform3fv'') \<and>
   uniTolerance (snd (render IDENTITY IDENTITY IDENTITY None None
     (fold applyKeyOp [SetKeyColor ''constructor'', SetTolerance 0.5, SetSmoothing 0.3]
      (snd (render IDENTITY IDENTITY IDENTITY None None
        (snd (init PreviewCanvas InitOk chromakey0))))))) = 0.35 \<and>
   uniSmoothing (snd (render IDENTITY IDENTITY IDENTITY None None
     (fold applyKeyOp [SetKeyColor ''constructor'', SetTolerance 0.5, SetSmoothing 0.3]
      (snd (render IDENTITY IDENTITY IDENTITY None None
        (snd (init PreviewCanvas InitOk chromakey0))))))) = 0.10 \<and>
   draws (snd (render IDENTITY IDENTITY IDENTITY None None
     (fold applyKeyOp [SetKeyColor ''constructor'', SetTolerance 0.5, SetSmoothing 0.3]
      (snd (render IDENTITY IDENTITY IDENTITY None None
        (snd (init PreviewCanvas InitOk chromakey0))))))) = 1"
  by (simp add: init_def chromakey0_def render_def setKeyColor_def KEY_COLORS_def
      objectPrototypeMembers_def setTolerance_def setSmoothing_def parseFloat_def)

subsection \<open>The parameters of the key\<close>

text \<open>
  C9 fails on the code at the name \<open>constructor\<close>: the lookup finds the member that
  \<open>KEY_COLORS\<close> inherits, the guard lets it through, the key colour is no longer one of
  the three presets, and the next draw throws.
\<close>

theorem setKeyColor_inherited_name:
  "currentKeyColor (setKeyColor ''constructor'' chromakey0) = Inherited ''constructor'' \<and>
   currentKeyColor (setKeyColor ''constructor'' chromakey0) \<noteq> currentKeyColor chromakey0 \<and>
   currentKeyColor (setKeyColor ''constructor'' chromakey0)
     \<notin> {Preset (0, 1, 0), Preset (0, 0, 1), Preset (0, 0, 0)} \<and>
   fst (render IDENTITY IDENTITY IDENTITY None None
     (setKeyColor ''constructor'' (snd (init PreviewCanvas InitOk chromakey0)))) =
     Some (TypeError ''uniform3fv'')"
  by (simp add: setKeyColor_def KEY_COLORS_def objectPrototypeMembers_def chromakey0_def
      init_def render_def)

text \<open>For every name that is not an inherited member the setter does what C9 says.\<close>

lemma setKeyColor_plain:
  "name \<notin> set objectPrototypeMembers \<Longrightarrow>
   setKeyColor name c =
     (if name = ''green'' then c\<lparr>currentKeyColor := Preset (0, 1, 0)\<rparr>
      else if name = ''blue'' then c\<lparr>currentKeyColor := Preset (0, 0, 1)\<rparr>
      else if name = ''black'' then c\<lparr>currentKeyColor := Preset (0, 0, 0)\<rparr>
      else c)"
  by (simp add: setKeyColor_def KEY_COLORS_def)

text \<open>
  C5, as amended. setTolerance and setSmoothing store the value they are passed, unchanged,
  and leave the other parameter alone: the stored value is non-negative when the value
  passed is, and negative when the value passed is negative.
\<close>

theorem setters_store_value:
  "currentTolerance (setTolerance val c) = val \<and>
   currentSmoothing (setTolerance val c) = currentSmoothing c \<and>
   currentSmoothing (setSmoothing val c) = val \<and>
   currentTolerance (setSmoothing val c) = currentTolerance c \<and>
   (0 \<le> val \<longrightarrow> 0 \<le> currentTolerance (setTolerance val c) \<and>
                 0 \<le> currentSmoothing (setSmoothing val c)) \<and>
   (val < 0 \<longrightarrow> currentTolerance (setTolerance val c) < 0 \<and>
                 currentSmoothing (setSmoothing val c) < 0)"
  by (simp add: setTolerance_def setSmoothing_def parseFloat_def)

text \<open>The value 0.5 is stored and is non-negative; the value -1 is stored as well.\<close>

theorem setters_store_value_witness:
  "(0::real) \<le> 0.5 \<and> currentTolerance (setTolerance 0.5 chromakey0) = 0.5 \<and>
   0 \<le> currentTolerance (setTolerance 0.5 chromakey0) \<and>
   currentSmoothing (setSmoothing 0.5 chromakey0) = 0.5 \<and>
   (- 1 :: real) < 0 \<and> currentTolerance (setTolerance (- 1) chromakey0) < 0"
  using setters_store_value [of "0.5" chromakey0] setters_store_value [of "- 1" chromakey0]
  by simp

text \<open>C5 as stated fails: a negative value passed to either setter is stored.\<close>

theorem setTolerance_negative_counterexample:
  "currentTolerance (setTolerance (- 1) chromakey0) = - 1 \<and>
   \<not> 0 \<le> currentTolerance (setTolerance (- 1) chromakey0) \<and>
   currentSmoothing (setSmoothing (- 1) chromakey0) = - 1 \<and>
   \<not> 0 \<le> currentSmoothing (setSmoothing (- 1) chromakey0)"
  by (simp add: setTolerance_def setSmoothing_def parseFloat_def)

text \<open>
  C10. Selecting a colour sets the tolerance of the provider and of the compositor to 0.15
  when the colour is black and the tolerance of the provider is above 0.2, and leaves both
  unchanged otherwise; the smoothing is never changed.
\<close>

theorem setActiveColor_tolerance:
  "tolerance (ui (setActiveColor color w)) =
     (if color = ''black'' \<and> tolerance (ui w) > 0.2 then 0.15 else tolerance (ui w)) \<and>
   currentTolerance (ck (setActiveColor color w)) =
     (if color = ''black'' \<and> tolerance (ui w) > 0.2 then 0.15 else currentTolerance (ck w)) \<and>
   currentSmoothing (ck (setActiveColor color w)) = currentSmoothing (ck w) \<and>
   smoothing (ui (setActiveColor color w)) = smoothing (ui w) \<and>
   currentColor (ui (setActiveColor color w)) = color"
  by (simp add: setActiveColor_def setTolerance_def setKeyColor_def parseFloat_def Let_def
      split: option.splits)

text \<open>
  From the initial tolerance 0.35: black resets it to 0.15, blue and green keep it; black
  at tolerance 0.2 keeps it.
\<close>

theorem setActiveColor_tolerance_witness:
  "tolerance (ui (setActiveColor ''black'' world0)) = 0.15 \<and>
   currentTolerance (ck (setActiveColor ''black'' world0)) = 0.15 \<and>
   currentKeyColor (ck (setActiveColor ''black'' world0)) = Preset (0, 0, 0) \<and>
   tolerance (ui (setActiveColor ''blue'' world0)) = 0.35 \<and>
   tolerance (ui (setActiveColor ''green'' world0)) = 0.35 \<and>
   tolerance (ui (setActiveColor ''black'' (toleranceSliderInput 0.2 world0))) = 0.2 \<and>
   currentTolerance (ck (setActiveColor ''black'' (toleranceSliderInput 0.2 world0))) = 0.2"
  using setActiveColor_tolerance [of "''black''" world0]
    setActiveColor_tolerance [of "''blue''" world0]
    setActiveColor_tolerance [of "''green''" world0]
    setActiveColor_tolerance [of "''black''" "toleranceSliderInput 0.2 world0"]
  by (simp add: world0_def uiState0_def chromakey0_def toleranceSliderInput_def
      setTolerance_def parseFloat_def setActiveColor_def setKeyColor_def KEY_COLORS_def Let_def)

subsection \<open>The placement\<close>

lemma moveTap_distance:
  "screenDistance (ui (moveTap dir w)) =
     (if dir = ''closer'' then max 0.3 (screenDistance (ui w) - 0.3)
      else if dir = ''farther'' then min 10 (screenDistance (ui w) + 0.3)
      else screenDistance (ui w)) \<and>
   screenScale (ui (moveTap dir w)) = screenScale (ui w)"
  by (simp add: moveTap_def Let_def DEPTH_STEP_def)

lemma applyPlacementOp_range:
  "placementRange (ui w) \<Longrightarrow> inRangeOp x \<Longrightarrow> placementRange (ui (applyPlacementOp x w))"
proof (cases x)
  case (MoveTap dir)
  assume "placementRange (ui w)"
  then show ?thesis
    using MoveTap moveTap_distance [of dir w]
    by (auto simp add: placementRange_def onTap_def min_def max_def)
qed (simp_all add: placementRange_def distanceSliderInput_def scaleSliderInput_def
      parseFloat_def onTap_def xrSmallerTap_def xrBiggerTap_def SCALE_STEP_def)

lemma fold_applyPlacementOp_range:
  "placementRange (ui w) \<Longrightarrow> list_all inRangeOp ops \<Longrightarrow>
   placementRange (ui (fold applyPlacementOp ops w))"
  by (induction ops arbitrary: w) (simp_all add: applyPlacementOp_range)

text \<open>
  C4, as amended. The initial placement is in the range 0.3 \<le> distance \<le> 10 and
  0.2 \<le> scale \<le> 5, both ends included, and the range is kept by every sequence of taps
  and of slider inputs whose value is in the range. A slider input stores its value as it
  is; the closer, farther, smaller and bigger taps step by 0.3 and 0.15 and clamp to the
  boundary.
\<close>

theorem placement_in_range:
  "placementRange (ui world0) \<and>
   (placementRange (ui w) \<and> list_all inRangeOp ops \<longrightarrow>
      placementRange (ui (fold applyPlacementOp ops w))) \<and>
   screenDistance (ui (applyPlacementOp (DistanceSlider val) w)) = val \<and>
   screenScale (ui (applyPlacementOp (ScaleSlider val) w)) = val \<and>
   screenDistance (ui (applyPlacementOp (MoveTap ''closer'') w)) =
     max 0.3 (screenDistance (ui w) - 0.3) \<and>
   screenDistance (ui (applyPlacementOp (MoveTap ''farther'') w)) =
     min 10 (screenDistance (ui w) + 0.3) \<and>
   screenScale (ui (applyPlacementOp SmallerTap w)) = max 0.2 (screenScale (ui w) - 0.15) \<and>
   screenScale (ui (applyPlacementOp BiggerTap w)) = min 5 (screenScale (ui w) + 0.15)"
proof (intro conjI)
  show "placementRange (ui world0)"
    by (simp add: placementRange_def world0_def uiState0_def)
  show "placementRange (ui w) \<and> list_all inRangeOp ops \<longrightarrow>
      placementRange (ui (fold applyPlacementOp ops w))"
    by (simp add: fold_applyPlacementOp_range)
  show "screenDistance (ui (applyPlacementOp (DistanceSlider val) w)) = val"
    by (simp add: distanceSliderInput_def parseFloat_def)
  show "screenScale (ui (applyPlacementOp (ScaleSlider val) w)) = val"
    by (simp add: scaleSliderInput_def parseFloat_def)
  show "screenDistance (ui (applyPlacementOp (MoveTap ''closer'') w)) =
     max 0.3 (screenDistance (ui w) - 0.3)"
    by (simp add: onTap_def moveTap_distance)
  show "screenDistance (ui (applyPlacementOp (MoveTap ''farther'') w)) =
     min 10 (screenDistance (ui w) + 0.3)"
    by (simp add: onTap_def moveTap_distance)
  show "screenScale (ui (applyPlacementOp SmallerTap w)) = max 0.2 (screenScale (ui w) - 0.15)"
    by (simp add: onTap_def xrSmallerTap_def SCALE_STEP_def)
  show "screenScale (ui (applyPlacementOp BiggerTap w)) = min 5 (screenScale (ui w) + 0.15)"
    by (simp add: onTap_def xrBiggerTap_def SCALE_STEP_def)
qed

text \<open>
  A farther tap at distance 9.9 stores 10 and a bigger tap at scale 4.9 stores 5.
\<close>

theorem placement_in_range_witness:
  "placementRange (ui world0) \<and>
   list_all inRangeOp [DistanceSlider 9.9, MoveTap ''farther'', ScaleSlider 4.9, BiggerTap] \<and>
   placementRange (ui (fold applyPlacementOp
     [DistanceSlider 9.9, MoveTap ''farther'', ScaleSlider 4.9, BiggerTap] world0)) \<and>
   screenDistance (ui (fold applyPlacementOp
     [DistanceSlider 9.9, MoveTap ''farther'', ScaleSlider 4.9, BiggerTap] world0)) = 10 \<and>
   screenScale (ui (fold applyPlacementOp
     [DistanceSlider 9.9, MoveTap ''farther'', ScaleSlider 4.9, BiggerTap] world0)) = 5"
  using placement_in_range [of world0
      "[DistanceSlider 9.9, MoveTap ''farther'', ScaleSlider 4.9, BiggerTap]"]
  by (simp add: world0_def uiState0_def distanceSliderInput_def scaleSliderInput_def
      parseFloat_def onTap_def moveTap_def xrBiggerTap_def DEPTH_STEP_def SCALE_STEP_def
      Let_def)

text \<open>
  C4 as stated fails: six closer taps from the initial state store the distance 0.3, the
  boundary itself, which is not above 0.3.
\<close>

theorem placement_counterexample:
  "screenDistance (ui (fold applyPlacementOp
     [MoveTap ''closer'', MoveTap ''closer'', MoveTap ''closer'', MoveTap ''closer'',
      MoveTap ''closer'', MoveTap ''closer''] world0)) = 0.3 \<and>
   \<not> 0.3 < screenDistance (ui (fold applyPlacementOp
     [MoveTap ''closer'', MoveTap ''closer'', MoveTap ''closer'', MoveTap ''closer'',
      MoveTap ''closer'', MoveTap ''closer''] world0))"
  by (simp add: world0_def uiState0_def onTap_def moveTap_def DEPTH_STEP_def Let_def)

subsection \<open>The immersive frame callback\<close>

lemma drawViews_xrRafPending: "xrRafPending (snd (drawViews vs w)) = xrRafPending w"
proof (induction vs arbitrary: w)
  case Nil
  show ?case by simp
next
  case (Cons v vs)
  show ?case
  proof (cases "render (projectionMatrix v) (inverseMatrix v) (buildModelMatrix (ui w) (video w))
      (xrGLLayer w) (Some (layerViewport v)) ((ck w)\<lparr>glViewport := Some (layerViewport v)\<rparr>)")
    case (Pair e c2)
    then show ?thesis
      using Cons.IH [of "w\<lparr>ck := c2\<rparr>"] by (cases e) (simp_all add: Let_def)
  qed
qed

text \<open>
  C6. On a frame tick with the session and the frame present, the callback has registered
  itself again whatever the tick does afterwards, an exception included: the number of its
  pending registrations is one more after the call, and unchanged after the host has
  consumed one to make the call. When the pose is null the call changes nothing else: it
  returns normally and no quad is drawn.
\<close>

theorem xrRenderLoop_reregisters:
  "xrSession w = Some sess \<Longrightarrow>
     xrRafPending (snd (xrRenderLoop (Some pose) w)) = Suc (xrRafPending w) \<and>
     xrRenderLoop (Some None) w = (None, w\<lparr>xrRafPending := Suc (xrRafPending w)\<rparr>) \<and>
     draws (ck (snd (xrRenderLoop (Some None) w))) = draws (ck w) \<and>
     (0 < xrRafPending w \<longrightarrow> xrRafPending (snd (xrFrame pose w)) = xrRafPending w)"
proof -
  assume s: "xrSession w = Some sess"
  have 1: "xrRafPending (snd (xrRenderLoop (Some pose) w')) = Suc (xrRafPending w')"
    if "xrSession w' = Some sess" for w'
    using that
    by (simp add: xrRenderLoop_def Let_def drawViews_xrRafPending
        split: option.splits prod.splits)
  have 2: "xrRenderLoop (Some None) w = (None, w\<lparr>xrRafPending := Suc (xrRafPending w)\<rparr>)"
    using s by (simp add: xrRenderLoop_def)
  have 3: "0 < xrRafPending w \<longrightarrow> xrRafPending (snd (xrFrame pose w)) = xrRafPending w"
    using s 1 [of "w\<lparr>xrRafPending := xrRafPending w - 1\<rparr>"] by (simp add: xrFrame_def)
  show ?thesis using 1 [OF s] 2 3 by simp
qed

text \<open>
  A session whose context is missing: with a null pose the tick only re-registers; with a
  pose the tick throws, and has re-registered all the same.
\<close>

theorem xrRenderLoop_reregisters_witness:
  "xrSession (world0\<lparr>xrSession := Some 1, xrRafPending := 1\<rparr>) = Some 1 \<and>
   xrRenderLoop (Some None) (world0\<lparr>xrSession := Some 1, xrRafPending := 1\<rparr>) =
     (None, world0\<lparr>xrSession := Some 1, xrRafPending := 2\<rparr>) \<and>
   xrRenderLoop (Some (Some [])) (world0\<lparr>xrSession := Some 1, xrRafPending := 1\<rparr>) =
     (Some (TypeError ''null''), world0\<lparr>xrSession := Some 1, xrRafPending := 2\<rparr>) \<and>
   xrRafPending (snd (xrFrame None (world0\<lparr>xrSession := Some 1, xrRafPending := 1\<rparr>))) = 1"
  using xrRenderLoop_reregisters [of "world0\<lparr>xrSession := Some 1, xrRafPending := 1\<rparr>" 1 None]
  by (simp add: world0_def xrRenderLoop_def chromakey0_def)

text \<open>The guard of line 154: without a session or without a frame nothing is registered.\<close>

lemma xrRenderLoop_guard:
  "xrRenderLoop None w = (None, w) \<and> (xrSession w = None \<longrightarrow> xrRenderLoop frame w = (None, w))"
  by (simp add: xrRenderLoop_def split: option.splits)

subsection \<open>Entering the immersive mode\<close>

text \<open>
  C7. From the preview mode, when the capability query answers that the immersive mode is
  not supported, or when it answers that it is and the request of the session is rejected
  with a message \<open>m\<close>: the mode flag stays false, the session, the pending registrations of
  both loops, the listeners and the compositor are untouched, the status bar shows a
  message of type error, and the host was asked once for the capability and at most once
  for a session, with no second attempt.
\<close>

theorem startXR_failure:
  "isXR w = False \<Longrightarrow> navigatorXR h \<Longrightarrow>
   supportedReply h = Inr False \<or> (supportedReply h = Inr True \<and> sessionReply h = Inl m) \<Longrightarrow>
     isXR (startXR h w) = False \<and>
     xrSession (startXR h w) = xrSession w \<and>
     rafPending (startXR h w) = rafPending w \<and>
     previewAnimId (startXR h w) = previewAnimId w \<and>
     xrRafPending (startXR h w) = xrRafPending w \<and>
     endListeners (startXR h w) = endListeners w \<and>
     ck (startXR h w) = ck w \<and>
     statusBar (ui (startXR h w)) =
       (if supportedReply h = Inr False then ''Immersive AR not supported on this device.''
        else ''Failed to start XR: '' @ m, ''error'') \<and>
     hostCalls (startXR h w) =
       hostCalls w @ (if supportedReply h = Inr False then [IsSessionSupported]
                      else [IsSessionSupported, RequestSession])"
  by (auto simp add: startXR_def startXRFailed_def setStatus_def Let_def)

text \<open>Both failures from the initial state, with the whole resulting state.\<close>

theorem startXR_failure_witness:
  "isXR world0 = False \<and>
   startXR \<lparr>navigatorXR = True, supportedReply = Inr False, sessionReply = Inr 1,
            xrInit = InitOk, layerReply = Inr 1, refSpaceReply = Inr 1, playStarts = True\<rparr>
     world0 =
     world0\<lparr>ui := uiState0\<lparr>statusBar :=
                (''Immersive AR not supported on this device.'', ''error'')\<rparr>,
            hostCalls := [IsSessionSupported]\<rparr> \<and>
   startXR \<lparr>navigatorXR = True, supportedReply = Inr True, sessionReply = Inl ''denied'',
            xrInit = InitOk, layerReply = Inr 1, refSpaceReply = Inr 1, playStarts = True\<rparr>
     world0 =
     world0\<lparr>ui := uiState0\<lparr>statusBar := (''Failed to start XR: denied'', ''error'')\<rparr>,
            hostCalls := [IsSessionSupported, RequestSession]\<rparr>"
  using startXR_failure [of world0
      "\<lparr>navigatorXR = True, supportedReply = Inr False, sessionReply = Inr 1,
        xrInit = InitOk, layerReply = Inr 1, refSpaceReply = Inr 1, playStarts = True\<rparr>" "[]"]
    startXR_failure [of world0
      "\<lparr>navigatorXR = True, supportedReply = Inr True, sessionReply = Inl ''denied'',
        xrInit = InitOk, layerReply = Inr 1, refSpaceReply = Inr 1, playStarts = True\<rparr>"
      "''denied''"]
  by (simp add: world0_def startXR_def startXRFailed_def setStatus_def)

text \<open>The two other failures before a session exists.\<close>

lemma startXR_unavailable:
  "\<not> navigatorXR h \<Longrightarrow>
   startXR h w = setStatus ''WebXR not available. Use Meta Quest Browser.'' ''error'' w"
  by (simp add: startXR_def)

lemma startXR_query_rejected:
  "navigatorXR h \<Longrightarrow> supportedReply h = Inl m \<Longrightarrow>
   startXR h w =
     (setStatus (''Failed to start XR: '' @ m) ''error''
        (w\<lparr>hostCalls := hostCalls w @ [IsSessionSupported]\<rparr>))\<lparr>isXR := False\<rparr>"
  by (simp add: startXR_def startXRFailed_def)

subsection \<open>Leaving the immersive mode\<close>

lemma previewDrawSafe_same:
  "video w' = video w \<Longrightarrow> videoReady w' = videoReady w \<Longrightarrow>
   currentKeyColor (ck w') = currentKeyColor (ck w) \<Longrightarrow>
   previewDrawSafe w' = previewDrawSafe w"
  by (simp add: previewDrawSafe_def split: option.splits)

lemma renderPreview_ok:
  assumes "gl c = Some cv" "program c = Some cv" "isPreset (currentKeyColor c)" "\<not> tainted v"
  shows "fst (renderPreview dims v c) = None \<and> gl (snd (renderPreview dims v c)) = Some cv \<and>
    program (snd (renderPreview dims v c)) = Some cv"
proof (cases "currentKeyColor c")
  case (Preset k)
  then show ?thesis
    using assms by (simp add: renderPreview_def render_def updateTexture_def Let_def)
next
  case (Inherited n)
  then show ?thesis using assms(3) by simp
qed

lemma loop_modes:
  "isXR (snd (loop dims w)) = isXR w \<and> xrSession (snd (loop dims w)) = xrSession w \<and>
   xrRafPending (snd (loop dims w)) = xrRafPending w"
  by (simp add: loop_def requestPreviewFrame_def Let_def split: option.splits prod.splits)

lemma loop_pending:
  "rafPending (snd (loop dims w)) = rafPending w \<or>
   rafPending (snd (loop dims w)) = rafPending w @ [Suc (rafLast w)]"
  by (simp add: loop_def requestPreviewFrame_def Let_def split: option.splits prod.splits)

lemma loop_ok:
  assumes "\<not> isXR w" "gl (ck w) = Some cv" "program (ck w) = Some cv" "previewDrawSafe w"
  shows "fst (loop dims w) = None \<and>
    rafPending (snd (loop dims w)) = rafPending w @ [Suc (rafLast w)] \<and>
    previewAnimId (snd (loop dims w)) = Some (Suc (rafLast w)) \<and>
    gl (ck (snd (loop dims w))) = Some cv \<and> program (ck (snd (loop dims w))) = Some cv"
proof (cases "video w")
  case None
  then show ?thesis using assms by (simp add: loop_def requestPreviewFrame_def Let_def)
next
  case (Some v)
  show ?thesis
  proof (cases "videoReady w \<and> \<not> paused v")
    case True
    then have s: "isPreset (currentKeyColor (ck w))" "\<not> tainted v"
      using assms(4) Some by (simp_all add: previewDrawSafe_def)
    obtain e c where r: "renderPreview dims v (ck w) = (e, c)"
      by (cases "renderPreview dims v (ck w)")
    then have "e = None" "gl c = Some cv" "program c = Some cv"
      using renderPreview_ok [OF assms(2) assms(3) s, of dims] by simp_all
    then show ?thesis
      using assms(1) Some True r by (simp add: loop_def requestPreviewFrame_def Let_def)
  next
    case False
    then show ?thesis
      using assms(1-3) Some by (auto simp add: loop_def requestPreviewFrame_def Let_def)
  qed
qed

lemma loop_tainted:
  assumes "\<not> isXR w" "gl (ck w) = Some cv" "videoTexture (ck w) = Some cv"
    "video w = Some v" "videoReady w" "\<not> paused v" "tainted v"
  shows "fst (loop dims w) = Some (SecurityError ''texImage2D'') \<and>
    rafPending (snd (loop dims w)) = rafPending w \<and>
    gl (ck (snd (loop dims w))) = Some cv"
  using assms by (simp add: loop_def renderPreview_def updateTexture_def Let_def)

lemma onXREnd_modes:
  "isXR (snd (onXREnd oc dims w)) = False \<and> xrSession (snd (onXREnd oc dims w)) = None \<and>
   xrRafPending (snd (onXREnd oc dims w)) = xrRafPending w"
proof -
  let ?w1 = "showXROverlay False (w\<lparr>isXR := False, xrSession := None\<rparr>)"
  obtain e c where i: "init PreviewCanvas oc (ck ?w1) = (e, c)"
    by (cases "init PreviewCanvas oc (ck ?w1)")
  show ?thesis
  proof (cases e)
    case (Some err)
    then show ?thesis using i by (simp add: onXREnd_def showXROverlay_def Let_def)
  next
    case None
    obtain e2 w2 where l: "loop dims (?w1\<lparr>ck := c\<rparr>) = (e2, w2)"
      by (cases "loop dims (?w1\<lparr>ck := c\<rparr>)")
    then have "isXR w2 = False \<and> xrSession w2 = None \<and> xrRafPending w2 = xrRafPending w"
      using loop_modes [of dims "?w1\<lparr>ck := c\<rparr>"] by (simp add: showXROverlay_def)
    then show ?thesis
      using i None l
      by (cases e2) (simp_all add: onXREnd_def startPreviewLoop_def Let_def setStatus_def)
  qed
qed

lemma onXREnd_pending:
  "rafPending (snd (onXREnd oc dims w)) = rafPending w \<or>
   rafPending (snd (onXREnd oc dims w)) = rafPending w @ [Suc (rafLast w)]"
proof -
  let ?w1 = "showXROverlay False (w\<lparr>isXR := False, xrSession := None\<rparr>)"
  obtain e c where i: "init PreviewCanvas oc (ck ?w1) = (e, c)"
    by (cases "init PreviewCanvas oc (ck ?w1)")
  show ?thesis
  proof (cases e)
    case (Some err)
    then show ?thesis using i by (simp add: onXREnd_def showXROverlay_def Let_def)
  next
    case None
    obtain e2 w2 where l: "loop dims (?w1\<lparr>ck := c\<rparr>) = (e2, w2)"
      by (cases "loop dims (?w1\<lparr>ck := c\<rparr>)")
    then have "rafPending w2 = rafPending w \<or> rafPending w2 = rafPending w @ [Suc (rafLast w)]"
      using loop_pending [of dims "?w1\<lparr>ck := c\<rparr>"] by (simp add: showXROverlay_def)
    then show ?thesis
      using i None l
      by (cases e2) (simp_all add: onXREnd_def startPreviewLoop_def Let_def setStatus_def)
  qed
qed

lemma onXREnd_ok:
  assumes "previewDrawSafe w"
  shows "fst (onXREnd InitOk dims w) = None \<and>
    gl (ck (snd (onXREnd InitOk dims w))) = Some PreviewCanvas \<and>
    program (ck (snd (onXREnd InitOk dims w))) = Some PreviewCanvas \<and>
    rafPending (snd (onXREnd InitOk dims w)) = rafPending w @ [Suc (rafLast w)] \<and>
    previewAnimId (snd (onXREnd InitOk dims w)) = Some (Suc (rafLast w)) \<and>
    statusBar (ui (snd (onXREnd InitOk dims w))) = (''Exited MR mode.'', [])"
proof -
  let ?w1 = "showXROverlay False (w\<lparr>isXR := False, xrSession := None\<rparr>)"
  obtain c where i: "init PreviewCanvas InitOk (ck ?w1) = (None, c)"
    and c: "gl c = Some PreviewCanvas" "program c = Some PreviewCanvas"
      "currentKeyColor c = currentKeyColor (ck w)"
    by (simp add: init_def showXROverlay_def)
  let ?w2 = "?w1\<lparr>ck := c\<rparr>"
  have safe: "previewDrawSafe ?w2"
    using assms c(3) previewDrawSafe_same [of ?w2 w] by (simp add: showXROverlay_def)
  obtain e2 w2 where l: "loop dims ?w2 = (e2, w2)"
    by (cases "loop dims ?w2")
  have "fst (loop dims ?w2) = None \<and>
    rafPending (snd (loop dims ?w2)) = rafPending ?w2 @ [Suc (rafLast ?w2)] \<and>
    previewAnimId (snd (loop dims ?w2)) = Some (Suc (rafLast ?w2)) \<and>
    gl (ck (snd (loop dims ?w2))) = Some PreviewCanvas \<and>
    program (ck (snd (loop dims ?w2))) = Some PreviewCanvas"
    using safe by (intro loop_ok) (simp_all add: c showXROverlay_def)
  then have "e2 = None \<and> rafPending w2 = rafPending w @ [Suc (rafLast w)] \<and>
    previewAnimId w2 = Some (Suc (rafLast w)) \<and> gl (ck w2) = Some PreviewCanvas \<and>
    program (ck w2) = Some PreviewCanvas"
    using l by (simp add: showXROverlay_def)
  then show ?thesis
    using i l by (simp add: onXREnd_def startPreviewLoop_def Let_def setStatus_def)
qed

lemma onXREnd_tainted:
  assumes "video w = Some v" "videoReady w" "\<not> paused v" "tainted v"
  shows "fst (onXREnd InitOk dims w) = Some (SecurityError ''texImage2D'') \<and>
    gl (ck (snd (onXREnd InitOk dims w))) = Some PreviewCanvas \<and>
    program (ck (snd (onXREnd InitOk dims w))) = Some PreviewCanvas \<and>
    rafPending (snd (onXREnd InitOk dims w)) = rafPending w"
proof -
  let ?w1 = "showXROverlay False (w\<lparr>isXR := False, xrSession := None\<rparr>)"
  obtain c where i: "init PreviewCanvas InitOk (ck ?w1) = (None, c)"
    and c: "gl c = Some PreviewCanvas" "program c = Some PreviewCanvas"
      "videoTexture c = Some PreviewCanvas"
    by (simp add: init_def showXROverlay_def)
  let ?w2 = "?w1\<lparr>ck := c\<rparr>"
  obtain e2 w2 where l: "loop dims ?w2 = (e2, w2)"
    by (cases "loop dims ?w2")
  have "fst (loop dims ?w2) = Some (SecurityError ''texImage2D'') \<and>
    rafPending (snd (loop dims ?w2)) = rafPending ?w2 \<and>
    gl (ck (snd (loop dims ?w2))) = Some PreviewCanvas"
    using assms by (intro loop_tainted [where v = v]) (simp_all add: c showXROverlay_def)
  moreover have "program (ck (snd (loop dims ?w2))) = Some PreviewCanvas"
    using assms
    by (simp add: loop_def renderPreview_def updateTexture_def Let_def c showXROverlay_def)
  ultimately have "e2 = Some (SecurityError ''texImage2D'') \<and> rafPending w2 = rafPending w \<and>
    gl (ck w2) = Some PreviewCanvas \<and> program (ck w2) = Some PreviewCanvas"
    using l by (simp add: showXROverlay_def)
  then show ?thesis
    using i l by (simp add: onXREnd_def startPreviewLoop_def Let_def)
qed

lemma onXREnd_init_fails:
  "oc \<noteq> InitOk \<Longrightarrow>
   fst (onXREnd oc dims w) \<noteq> None \<and> rafPending (snd (onXREnd oc dims w)) = rafPending w \<and>
   program (ck (snd (onXREnd oc dims w))) = program (ck w)"
  by (cases oc) (simp_all add: onXREnd_def init_def Let_def showXROverlay_def)

text \<open>
  Where the teardown does what C8 says. In the immersive mode as \<open>startXR\<close> leaves it,
  \<open>endXR\<close> and the end of the session by the host are the same teardown, \<open>onXREnd\<close>. After
  it the mode flag is false, there is no session, no registration of the immersive callback
  is pending and a late call of it registers nothing, and at most one registration of the
  preview loop is pending. When the preview canvas gives a context and the first pass of
  the preview loop does not throw, the teardown returns normally, the compositor is
  initialised on the preview canvas, and exactly one registration of the preview loop is
  pending, the one the teardown made.
\<close>

lemma exit_paths_converge:
  "immersive sess w \<Longrightarrow>
     endXR oc dims w = sessionEnd sess oc dims w \<and>
     sessionEnd sess oc dims w =
       onXREnd oc dims (w\<lparr>xrRafPending := 0, endListeners := removeAll sess (endListeners w)\<rparr>) \<and>
     isXR (snd (sessionEnd sess oc dims w)) = False \<and>
     xrSession (snd (sessionEnd sess oc dims w)) = None \<and>
     xrRafPending (snd (sessionEnd sess oc dims w)) = 0 \<and>
     xrRenderLoop frame (snd (sessionEnd sess oc dims w)) = (None, snd (sessionEnd sess oc dims w)) \<and>
     length (rafPending (snd (sessionEnd sess oc dims w))) \<le> 1 \<and>
     (oc = InitOk \<and> previewDrawSafe w \<longrightarrow>
        fst (sessionEnd sess oc dims w) = None \<and>
        gl (ck (snd (sessionEnd sess oc dims w))) = Some PreviewCanvas \<and>
        program (ck (snd (sessionEnd sess oc dims w))) = Some PreviewCanvas \<and>
        rafPending (snd (sessionEnd sess oc dims w)) = [Suc (rafLast w)] \<and>
        previewAnimId (snd (sessionEnd sess oc dims w)) = Some (Suc (rafLast w)))"
proof -
  assume im: "immersive sess w"
  let ?w = "w\<lparr>xrRafPending := 0, endListeners := removeAll sess (endListeners w)\<rparr>"
  have 1: "endXR oc dims w = sessionEnd sess oc dims w"
    using im by (simp add: endXR_def immersive_def)
  have 2: "sessionEnd sess oc dims w = onXREnd oc dims ?w"
    using im by (simp add: sessionEnd_def immersive_def Let_def)
  have p: "rafPending ?w = []" "rafLast ?w = rafLast w" "ck ?w = ck w"
    using im by (simp_all add: immersive_def)
  have 3: "isXR (snd (onXREnd oc dims ?w)) = False \<and> xrSession (snd (onXREnd oc dims ?w)) = None \<and>
     xrRafPending (snd (onXREnd oc dims ?w)) = 0"
    using onXREnd_modes [of oc dims ?w] by simp
  then have 4: "xrRenderLoop frame (snd (onXREnd oc dims ?w)) = (None, snd (onXREnd oc dims ?w))"
    by (simp add: xrRenderLoop_def)
  have 5: "length (rafPending (snd (onXREnd oc dims ?w))) \<le> 1"
    using onXREnd_pending [of oc dims ?w] p by auto
  have 6: "oc = InitOk \<and> previewDrawSafe w \<longrightarrow>
        fst (onXREnd oc dims ?w) = None \<and>
        gl (ck (snd (onXREnd oc dims ?w))) = Some PreviewCanvas \<and>
        program (ck (snd (onXREnd oc dims ?w))) = Some PreviewCanvas \<and>
        rafPending (snd (onXREnd oc dims ?w)) = [Suc (rafLast w)] \<and>
        previewAnimId (snd (onXREnd oc dims ?w)) = Some (Suc (rafLast w))"
  proof
    assume a: "oc = InitOk \<and> previewDrawSafe w"
    then have k: "previewDrawSafe ?w" using previewDrawSafe_same [of ?w w] by simp
    show "fst (onXREnd oc dims ?w) = None \<and>
        gl (ck (snd (onXREnd oc dims ?w))) = Some PreviewCanvas \<and>
        program (ck (snd (onXREnd oc dims ?w))) = Some PreviewCanvas \<and>
        rafPending (snd (onXREnd oc dims ?w)) = [Suc (rafLast w)] \<and>
        previewAnimId (snd (onXREnd oc dims ?w)) = Some (Suc (rafLast w))"
      using onXREnd_ok [OF k, of dims] a p by simp
  qed
  show ?thesis
    unfolding 2 using 1 2 3 4 5 6 by simp
qed

text \<open>The teardown with a tainted video that is ready and playing.\<close>

lemma exit_tainted:
  assumes "immersive sess w" "video w = Some v" "videoReady w" "\<not> paused v" "tainted v"
  shows "endXR InitOk dims w = sessionEnd sess InitOk dims w \<and>
    fst (sessionEnd sess InitOk dims w) = Some (SecurityError ''texImage2D'') \<and>
    isXR (snd (sessionEnd sess InitOk dims w)) = False \<and>
    xrSession (snd (sessionEnd sess InitOk dims w)) = None \<and>
    gl (ck (snd (sessionEnd sess InitOk dims w))) = Some PreviewCanvas \<and>
    program (ck (snd (sessionEnd sess InitOk dims w))) = Some PreviewCanvas \<and>
    rafPending (snd (sessionEnd sess InitOk dims w)) = []"
proof -
  let ?w = "w\<lparr>xrRafPending := 0, endListeners := removeAll sess (endListeners w)\<rparr>"
  have 1: "endXR InitOk dims w = sessionEnd sess InitOk dims w"
    using assms(1) by (simp add: endXR_def immersive_def)
  have 2: "sessionEnd sess InitOk dims w = onXREnd InitOk dims ?w"
    using assms(1) by (simp add: sessionEnd_def immersive_def Let_def)
  have p: "rafPending ?w = []"
    using assms(1) by (simp add: immersive_def)
  have v: "video ?w = Some v" "videoReady ?w"
    using assms by simp_all
  show ?thesis
    unfolding 2
    using 1 2 p onXREnd_tainted [OF v assms(4) assms(5), of dims] onXREnd_modes [of InitOk dims ?w]
    by simp
qed

text \<open>
  A successful \<open>startXR\<close> from the preview mode, where the only registration of the preview
  loop that can be pending is the one in \<open>previewAnimId\<close>, establishes that mode.
\<close>

lemma removeAll_only: "set xs \<subseteq> {n} \<Longrightarrow> removeAll n xs = []"
  by (induction xs) simp_all

lemma startXR_enters:
  assumes "navigatorXR h" "supportedReply h = Inr True" "sessionReply h = Inr sess"
    "xrInit h = InitOk" "layerReply h = Inr layer" "refSpaceReply h = Inr space"
    "previewAnimId w = Some n" "n \<noteq> 0" "set (rafPending w) \<subseteq> {n}"
  shows "immersive sess (startXR h w) \<and> xrRafPending (startXR h w) = Suc (xrRafPending w) \<and>
    gl (ck (startXR h w)) = Some XRCanvas \<and>
    currentKeyColor (ck (startXR h w)) = currentKeyColor (ck w)"
proof -
  have "removeAll n (rafPending w) = []"
    using assms(9) by (rule removeAll_only)
  then show ?thesis
    using assms
    by (simp add: startXR_def startXRSession_def cancelPreview_def init_def Let_def
        showXROverlay_def play_def immersive_def split: option.splits)
qed

text \<open>
  The immersive mode of these lemmas is met along every run: the page starts with at most
  one registration of the preview loop, every preview tick keeps it so, a successful
  \<open>startXR\<close> turns it into the immersive mode, the immersive ticks keep that mode, and the
  teardown leaves at most one registration again.
\<close>

lemma loop_single:
  "rafPending w = [] \<Longrightarrow> previewSingle (snd (loop dims w))"
  by (auto simp add: loop_def requestPreviewFrame_def previewSingle_def Let_def
      split: option.splits prod.splits)

lemma appInit_single: "previewSingle (snd (appInit oc dims world0))"
proof (cases "init PreviewCanvas oc (ck world0)")
  case (Pair e c)
  show ?thesis
  proof (cases e)
    case None
    then show ?thesis
      using Pair loop_single [of "world0\<lparr>ck := c\<rparr>" dims]
      by (simp add: appInit_def startPreviewLoop_def world0_def)
  next
    case (Some err)
    then show ?thesis
      using Pair by (simp add: appInit_def previewSingle_def world0_def)
  qed
qed

lemma previewFrame_single:
  "previewSingle w \<Longrightarrow> previewSingle (snd (previewFrame n dims w))"
proof (cases "n \<in> set (rafPending w)")
  case True
  assume "previewSingle w"
  then have "removeAll n (rafPending w) = []"
    using True by (auto simp add: previewSingle_def)
  then show ?thesis
    using True loop_single [of "w\<lparr>rafPending := removeAll n (rafPending w)\<rparr>" dims]
    by (simp add: previewFrame_def)
next
  case False
  assume "previewSingle w"
  then show ?thesis using False by (simp add: previewFrame_def)
qed

lemma startXR_enters_single:
  assumes "navigatorXR h" "supportedReply h = Inr True" "sessionReply h = Inr sess"
    "xrInit h = InitOk" "layerReply h = Inr layer" "refSpaceReply h = Inr space"
    "previewSingle w"
  shows "immersive sess (startXR h w)"
proof -
  have "rafPending (cancelPreview (w\<lparr>hostCalls := hostCalls w @ [IsSessionSupported, RequestSession],
      xrSession := Some sess, isXR := True\<rparr>)) = []"
    using assms(7) by (auto simp add: previewSingle_def cancelPreview_def split: option.splits)
  then show ?thesis
    using assms(1-6)
    by (simp add: startXR_def startXRSession_def init_def Let_def showXROverlay_def play_def
        immersive_def cancelPreview_def split: option.splits if_splits)
qed

lemma drawViews_immersive: "immersive sess (snd (drawViews vs w)) = immersive sess w"
proof (induction vs arbitrary: w)
  case Nil
  show ?case by simp
next
  case (Cons v vs)
  show ?case
  proof (cases "render (projectionMatrix v) (inverseMatrix v) (buildModelMatrix (ui w) (video w))
      (xrGLLayer w) (Some (layerViewport v)) ((ck w)\<lparr>glViewport := Some (layerViewport v)\<rparr>)")
    case (Pair e c2)
    then show ?thesis
      using Cons.IH [of "w\<lparr>ck := c2\<rparr>"]
      by (cases e) (simp_all add: Let_def immersive_def)
  qed
qed

lemma xrFrame_immersive: "immersive sess w \<Longrightarrow> immersive sess (snd (xrFrame pose w))"
  by (simp add: xrFrame_def xrRenderLoop_def Let_def drawViews_immersive
      split: option.splits prod.splits) (simp add: immersive_def)

lemma sessionEnd_single:
  "immersive sess w \<Longrightarrow> previewSingle (snd (sessionEnd sess oc dims w))"
proof -
  assume im: "immersive sess w"
  let ?w = "w\<lparr>xrRafPending := 0, endListeners := removeAll sess (endListeners w)\<rparr>"
  let ?w1 = "showXROverlay False (?w\<lparr>isXR := False, xrSession := None\<rparr>)"
  have e: "sessionEnd sess oc dims w = onXREnd oc dims ?w"
    using im by (simp add: sessionEnd_def immersive_def Let_def)
  have r: "rafPending ?w1 = []"
    using im by (simp add: immersive_def showXROverlay_def)
  obtain err c where i: "init PreviewCanvas oc (ck ?w1) = (err, c)"
    by (cases "init PreviewCanvas oc (ck ?w1)")
  show ?thesis
  proof (cases err)
    case (Some x)
    then show ?thesis
      using i r by (simp add: e onXREnd_def Let_def previewSingle_def)
  next
    case None
    obtain e2 w2 where l: "loop dims (?w1\<lparr>ck := c\<rparr>) = (e2, w2)"
      by (cases "loop dims (?w1\<lparr>ck := c\<rparr>)")
    have "previewSingle (snd (loop dims (?w1\<lparr>ck := c\<rparr>)))"
      using r by (intro loop_single) simp
    then have "previewSingle w2" using l by simp
    then show ?thesis
      using i None l
      by (cases e2)
        (simp_all add: e onXREnd_def startPreviewLoop_def Let_def setStatus_def
          previewSingle_def)
  qed
qed

text \<open>
  The page is initialised, enters the immersive mode with session 7 and leaves it by
  \<open>endXR\<close>: one registration of the preview loop before, none during, one after.
\<close>

lemma exit_paths_converge_example:
  "immersive 7 (startXR \<lparr>navigatorXR = True, supportedReply = Inr True, sessionReply = Inr 7,
          xrInit = InitOk, layerReply = Inr 3, refSpaceReply = Inr 5, playStarts = True\<rparr> (snd (appInit InitOk (640, 360) world0))) \<and>
   rafPending (snd (appInit InitOk (640, 360) world0)) = [1] \<and>
   rafPending (startXR \<lparr>navigatorXR = True, supportedReply = Inr True, sessionReply = Inr 7,
          xrInit = InitOk, layerReply = Inr 3, refSpaceReply = Inr 5, playStarts = True\<rparr> (snd (appInit InitOk (640, 360) world0))) = [] \<and>
   endXR InitOk (640, 360) (startXR \<lparr>navigatorXR = True, supportedReply = Inr True, sessionReply = Inr 7,
          xrInit = InitOk, layerReply = Inr 3, refSpaceReply = Inr 5, playStarts = True\<rparr> (snd (appInit InitOk (640, 360) world0))) =
     sessionEnd 7 InitOk (640, 360) (startXR \<lparr>navigatorXR = True, supportedReply = Inr True, sessionReply = Inr 7,
          xrInit = InitOk, layerReply = Inr 3, refSpaceReply = Inr 5, playStarts = True\<rparr> (snd (appInit InitOk (640, 360) world0))) \<and>
   fst (endXR InitOk (640, 360) (startXR \<lparr>navigatorXR = True, supportedReply = Inr True, sessionReply = Inr 7,
          xrInit = InitOk, layerReply = Inr 3, refSpaceReply = Inr 5, playStarts = True\<rparr> (snd (appInit InitOk (640, 360) world0)))) = None \<and>
   isXR (snd (endXR InitOk (640, 360) (startXR \<lparr>navigatorXR = True, supportedReply = Inr True, sessionReply = Inr 7,
          xrInit = InitOk, layerReply = Inr 3, refSpaceReply = Inr 5, playStarts = True\<rparr> (snd (appInit InitOk (640, 360) world0))))) = False \<and>
   xrSession (snd (endXR InitOk (640, 360) (startXR \<lparr>navigatorXR = True, supportedReply = Inr True, sessionReply = Inr 7,
          xrInit = InitOk, layerReply = Inr 3, refSpaceReply = Inr 5, playStarts = True\<rparr> (snd (appInit InitOk (640, 360) world0))))) = None \<and>
   gl (ck (snd (endXR InitOk (640, 360) (startXR \<lparr>navigatorXR = True, supportedReply = Inr True, sessionReply = Inr 7,
          xrInit = InitOk, layerReply = Inr 3, refSpaceReply = Inr 5, playStarts = True\<rparr> (snd (appInit InitOk (640, 360) world0)))))) = Some PreviewCanvas \<and>
   rafPending (snd (endXR InitOk (640, 360) (startXR \<lparr>navigatorXR = True, supportedReply = Inr True, sessionReply = Inr 7,
          xrInit = InitOk, layerReply = Inr 3, refSpaceReply = Inr 5, playStarts = True\<rparr> (snd (appInit InitOk (640, 360) world0))))) = [2]"
proof -
  define W where "W = (snd (appInit InitOk (640, 360) world0))"
  define X where "X = startXR \<lparr>navigatorXR = True, supportedReply = Inr True, sessionReply = Inr 7,
          xrInit = InitOk, layerReply = Inr 3, refSpaceReply = Inr 5, playStarts = True\<rparr> W"
  have w: "W =
      world0\<lparr>ck := snd (init PreviewCanvas InitOk chromakey0), previewAnimId := Some 1,
             rafPending := [1], rafLast := 1\<rparr>"
    by (simp add: W_def appInit_def init_def startPreviewLoop_def loop_def
        requestPreviewFrame_def world0_def chromakey0_def)
  have im: "immersive 7 X"
    unfolding X_def w
    by (rule startXR_enters [where n = 1, THEN conjunct1]) (simp_all add: world0_def)
  have k: "previewDrawSafe X"
    unfolding X_def w
    by (simp add: startXR_def startXRSession_def cancelPreview_def init_def Let_def
        showXROverlay_def play_def world0_def chromakey0_def previewDrawSafe_def)
  have l: "rafLast X = 1"
    unfolding X_def w
    by (simp add: startXR_def startXRSession_def cancelPreview_def init_def Let_def
        showXROverlay_def play_def world0_def chromakey0_def)
  have p: "rafPending X = []"
    using im by (simp add: immersive_def)
  have q: "rafPending W = [1]"
    by (simp add: w)
  note t = exit_paths_converge [OF im, of InitOk "(640, 360)" None]
  have e: "endXR InitOk (640, 360) X = sessionEnd 7 InitOk (640, 360) X"
    using t by (rule conjunct1)
  have r: "fst (sessionEnd 7 InitOk (640, 360) X) = None \<and>
      isXR (snd (sessionEnd 7 InitOk (640, 360) X)) = False \<and>
      xrSession (snd (sessionEnd 7 InitOk (640, 360) X)) = None \<and>
      gl (ck (snd (sessionEnd 7 InitOk (640, 360) X))) = Some PreviewCanvas \<and>
      rafPending (snd (sessionEnd 7 InitOk (640, 360) X)) = [2]"
    using t k l by auto
  have "immersive 7 X \<and> rafPending W = [1] \<and> rafPending X = [] \<and>
      endXR InitOk (640, 360) X = sessionEnd 7 InitOk (640, 360) X \<and>
      fst (endXR InitOk (640, 360) X) = None \<and>
      isXR (snd (endXR InitOk (640, 360) X)) = False \<and>
      xrSession (snd (endXR InitOk (640, 360) X)) = None \<and>
      gl (ck (snd (endXR InitOk (640, 360) X))) = Some PreviewCanvas \<and>
      rafPending (snd (endXR InitOk (640, 360) X)) = [2]"
    using im q p r unfolding e by (intro conjI) simp_all
  then show ?thesis
    unfolding X_def W_def .
qed

text \<open>
  C8 fails on the code when the first pass of the restarted preview loop throws. In the
  run with the video of the last resort, both exits are the same teardown and leave the
  mode flag false and the compositor initialised on the preview canvas, but the upload
  throws before \<open>requestAnimationFrame\<close> is reached: no registration of the preview loop is
  pending afterwards, where the claim has exactly one. The immersive callback meets the
  same exception in that run and stays registered.
\<close>

theorem exit_without_restart:
  "immersive 7 lastResortRun \<and>
   endXR InitOk (640, 360) lastResortRun = sessionEnd 7 InitOk (640, 360) lastResortRun \<and>
   fst (endXR InitOk (640, 360) lastResortRun) = Some (SecurityError ''texImage2D'') \<and>
   isXR (snd (endXR InitOk (640, 360) lastResortRun)) = False \<and>
   xrSession (snd (endXR InitOk (640, 360) lastResortRun)) = None \<and>
   gl (ck (snd (endXR InitOk (640, 360) lastResortRun))) = Some PreviewCanvas \<and>
   program (ck (snd (endXR InitOk (640, 360) lastResortRun))) = Some PreviewCanvas \<and>
   rafPending (snd (endXR InitOk (640, 360) lastResortRun)) = [] \<and>
   fst (xrFrame (Some []) lastResortRun) = Some (SecurityError ''texImage2D'') \<and>
   xrRafPending (snd (xrFrame (Some []) lastResortRun)) = 1"
proof -
  define V where "V = lastResortVideo"
  define W where
    "W = (snd (appInit InitOk (640, 360) world0))\<lparr>video := Some V, videoReady := True\<rparr>"
  define X where "X = lastResortRun"
  have w: "W =
      world0\<lparr>ck := snd (init PreviewCanvas InitOk chromakey0), previewAnimId := Some 1,
             rafPending := [1], rafLast := 1, video := Some V, videoReady := True\<rparr>"
    by (simp add: W_def appInit_def init_def startPreviewLoop_def loop_def
        requestPreviewFrame_def world0_def chromakey0_def)
  have xw: "X = startXR acceptingHost W"
    by (simp add: X_def lastResortRun_def W_def V_def)
  have im: "immersive 7 X"
    unfolding xw w
    by (rule startXR_enters [where n = 1, THEN conjunct1])
      (simp_all add: world0_def acceptingHost_def)
  have x: "video X = Some V" "videoReady X" "xrRafPending X = 1" "xrSession X = Some 7"
    "xrGLLayer X = Some 3" "gl (ck X) = Some XRCanvas" "videoTexture (ck X) = Some XRCanvas"
    unfolding xw w
    by (simp_all add: startXR_def startXRSession_def cancelPreview_def init_def Let_def
        showXROverlay_def play_def world0_def chromakey0_def V_def acceptingHost_def
        lastResortVideo_def)
  have v: "\<not> paused V" "tainted V"
    by (simp_all add: V_def lastResortVideo_def)
  note t = exit_tainted [OF im x(1) x(2) v, of "(640, 360)"]
  have f: "fst (xrFrame (Some []) X) = Some (SecurityError ''texImage2D'') \<and>
      xrRafPending (snd (xrFrame (Some []) X)) = 1"
    using x v by (simp add: xrFrame_def xrRenderLoop_def updateTexture_def Let_def)
  show ?thesis
    using im t f unfolding X_def by simp
qed

end
